theory Spec2Isabelle
  imports Main "HOL-Library.Finite_Map"
begin

section \<open>Errors\<close>

text \<open>
  The typed HTTP errors of \<^verbatim>\<open>server/server.go\<close> (the \<^verbatim>\<open>errHTTP...\<close> variables), the
  sentinel \<^verbatim>\<open>errInvalidPriority\<close> of the util package, and \<^verbatim>\<open>errOther\<close> for any
  other Go error (an I/O or cache failure), which the top-level handler reports as
  \<^verbatim>\<open>errHTTPInternalError\<close>.
\<close>

datatype error =
    errHTTPBadRequestEmailDisabled
  | errHTTPBadRequestDelayNoCache
  | errHTTPBadRequestDelayNoEmail
  | errHTTPBadRequestDelayCannotParse
  | errHTTPBadRequestDelayTooSmall
  | errHTTPBadRequestDelayTooLarge
  | errHTTPBadRequestPriorityInvalid
  | errHTTPBadRequestSinceInvalid
  | errHTTPBadRequestTopicInvalid
  | errHTTPBadRequestTopicDisallowed
  | errHTTPBadRequestMessageNotUTF8
  | errHTTPBadRequestAttachmentTooLarge
  | errHTTPBadRequestAttachmentURLInvalid
  | errHTTPBadRequestAttachmentsDisallowed
  | errHTTPBadRequestAttachmentsExpiryBeforeDelivery
  | errHTTPTooManyRequestsLimitEmails
  | errHTTPTooManyRequestsLimitSubscriptions
  | errHTTPTooManyRequestsLimitTotalTopics
  | errInvalidPriority
  | errOther string


section \<open>The util package\<close>

text \<open>
  Go strings are byte sequences; they are modelled as \<^typ>\<open>string\<close>, one \<^typ>\<open>char\<close> per
  byte, and \<^verbatim>\<open>byte\<close> reads a byte as a number.
\<close>

definition byte :: "char \<Rightarrow> nat" where
  "byte c = of_char c"

text \<open>
  \<^verbatim>\<open>strings.ToLower\<close> of the Go standard library maps every rune to its lower case. The
  model does so for the letters \<^verbatim>\<open>A\<close> to \<^verbatim>\<open>Z\<close> and for the two runes beyond ASCII whose
  lower case is an ASCII letter: U+0130 (bytes C4 B0, lower case \<^verbatim>\<open>i\<close>) and U+212A (bytes
  E2 84 AA, lower case \<^verbatim>\<open>k\<close>). Every other byte is left as it is: the library would turn
  such a rune into another rune beyond ASCII, so whether the result is a given ASCII word,
  which is all the sources ask of it, is the same.
\<close>

fun ToLower :: "string \<Rightarrow> string" where
  "ToLower [] = []"
| "ToLower (c # cs) =
     (if 65 \<le> byte c \<and> byte c \<le> 90 then char_of (byte c + 32) # ToLower cs
      else if byte c = 196 then
        (case cs of
           d # r \<Rightarrow> if byte d = 176 then CHR ''i'' # ToLower r else c # ToLower cs
         | [] \<Rightarrow> [c])
      else if byte c = 226 then
        (case cs of
           d1 # d2 # r \<Rightarrow>
             if byte d1 = 132 \<and> byte d2 = 170 then CHR ''k'' # ToLower r else c # ToLower cs
         | _ \<Rightarrow> c # ToLower cs)
      else c # ToLower cs)"

text \<open>
  \<^verbatim>\<open>strings.TrimSpace\<close> removes the leading and trailing white space, as
  \<^verbatim>\<open>unicode.IsSpace\<close> defines it: tab, line feed, vertical tab, form feed, carriage return,
  space, U+0085, U+00A0, U+1680, U+2000 to U+200A, U+2028, U+2029, U+202F, U+205F and
  U+3000, the ones beyond ASCII in their UTF-8 encodings. \<^verbatim>\<open>trimLeft\<close> works on the string,
  \<^verbatim>\<open>trimLeftRev\<close> on the reversed string, where the bytes of a rune come last byte first.
\<close>

definition asciiSpace :: "char \<Rightarrow> bool" where
  "asciiSpace c = (byte c \<in> {9, 10, 11, 12, 13, 32})"

definition space2 :: "nat \<Rightarrow> nat \<Rightarrow> bool" where
  "space2 b1 b2 = (b1 = 194 \<and> (b2 = 133 \<or> b2 = 160))"

definition space3 :: "nat \<Rightarrow> nat \<Rightarrow> nat \<Rightarrow> bool" where
  "space3 b1 b2 b3 =
     ((b1 = 225 \<and> b2 = 154 \<and> b3 = 128) \<or>
      (b1 = 226 \<and> b2 = 128 \<and> ((128 \<le> b3 \<and> b3 \<le> 138) \<or> b3 = 168 \<or> b3 = 169 \<or> b3 = 175)) \<or>
      (b1 = 226 \<and> b2 = 129 \<and> b3 = 159) \<or>
      (b1 = 227 \<and> b2 = 128 \<and> b3 = 128))"

fun trimLeft :: "string \<Rightarrow> string" where
  "trimLeft [] = []"
| "trimLeft (c # cs) =
     (if asciiSpace c then trimLeft cs
      else (case cs of
              [] \<Rightarrow> [c]
            | d1 # r1 \<Rightarrow>
                if space2 (byte c) (byte d1) then trimLeft r1
                else (case r1 of
                        [] \<Rightarrow> c # cs
                      | d2 # r2 \<Rightarrow>
                          if space3 (byte c) (byte d1) (byte d2) then trimLeft r2 else c # cs)))"

fun trimLeftRev :: "string \<Rightarrow> string" where
  "trimLeftRev [] = []"
| "trimLeftRev (c # cs) =
     (if asciiSpace c then trimLeftRev cs
      else (case cs of
              [] \<Rightarrow> [c]
            | d1 # r1 \<Rightarrow>
                if space2 (byte d1) (byte c) then trimLeftRev r1
                else (case r1 of
                        [] \<Rightarrow> c # cs
                      | d2 # r2 \<Rightarrow>
                          if space3 (byte d2) (byte d1) (byte c) then trimLeftRev r2 else c # cs)))"

definition TrimSpace :: "string \<Rightarrow> string" where
  "TrimSpace s = rev (trimLeftRev (rev (trimLeft s)))"

text \<open>\<^verbatim>\<open>InStringList\<close>: the loop returns true at the first element equal to the needle.\<close>

fun InStringList :: "string list \<Rightarrow> string \<Rightarrow> bool" where
  "InStringList [] needle = False"
| "InStringList (s # haystack) needle = (if s = needle then True else InStringList haystack needle)"

text \<open>\<^verbatim>\<open>ParsePriority\<close>: the switch over the lower-cased, trimmed string, case by case.\<close>

definition ParsePriority :: "string \<Rightarrow> error + int" where
  "ParsePriority priority =
     (let p = TrimSpace (ToLower priority) in
      if p = '''' then Inr 0
      else if p = ''1'' \<or> p = ''min'' then Inr 1
      else if p = ''2'' \<or> p = ''low'' then Inr 2
      else if p = ''3'' \<or> p = ''default'' then Inr 3
      else if p = ''4'' \<or> p = ''high'' then Inr 4
      else if p = ''5'' \<or> p = ''max'' \<or> p = ''urgent'' then Inr 5
      else Inl errInvalidPriority)"

section \<open>Messages, requests, configuration\<close>

text \<open>
  Modelled from the spec: the declarations of \<^verbatim>\<open>message\<close> and \<^verbatim>\<open>attachment\<close> are not among
  the sources; the records hold the fields of the Message and Attachment of the data model
  that \<^verbatim>\<open>server.go\<close> reads and writes. \<^verbatim>\<open>Time\<close> and \<^verbatim>\<open>Expires\<close> are unix seconds. The
  pointer \<^verbatim>\<open>m.Attachment\<close> is an option (\<^verbatim>\<open>nil\<close> is \<^term>\<open>None\<close>).
\<close>

record attachment =
  Name :: string
  Type :: string
  Size :: int
  Expires :: int
  URL :: string
  Owner :: string

record message =
  ID :: string
  Time :: int
  Event :: string
  Topic :: string
  Priority :: int
  Tags :: "string list"
  Click :: string
  Attachment :: "attachment option"
  Title :: string
  Message :: string

text \<open>Modelled from the spec: the event names \<^verbatim>\<open>open\<close>, \<^verbatim>\<open>keepalive\<close> and \<^verbatim>\<open>message\<close>.\<close>

definition openEvent :: string where "openEvent = ''open''"

definition keepaliveEvent :: string where "keepaliveEvent = ''keepalive''"

definition messageEvent :: string where "messageEvent = ''message''"

definition emptyAttachment :: attachment where
  "emptyAttachment = \<lparr>Name = [], Type = [], Size = 0, Expires = 0, URL = [], Owner = []\<rparr>"

text \<open>
  Modelled from the spec: \<^verbatim>\<open>newDefaultMessage\<close>, \<^verbatim>\<open>newOpenMessage\<close> and
  \<^verbatim>\<open>newKeepaliveMessage\<close> are not among the sources; they build a message with a fresh id,
  time = now, the given event and topic, and every other field empty. The id generator is
  random, so the id is an argument.
\<close>

definition newMessage :: "string \<Rightarrow> int \<Rightarrow> string \<Rightarrow> string \<Rightarrow> string \<Rightarrow> message" where
  "newMessage mid t event topic msg =
     \<lparr>ID = mid, Time = t, Event = event, Topic = topic, Priority = 0, Tags = [], Click = [],
      Attachment = None, Title = [], Message = msg\<rparr>"

definition newDefaultMessage :: "string \<Rightarrow> int \<Rightarrow> string \<Rightarrow> string \<Rightarrow> message" where
  "newDefaultMessage mid t topic msg = newMessage mid t messageEvent topic msg"

definition newOpenMessage :: "string \<Rightarrow> int \<Rightarrow> string \<Rightarrow> message" where
  "newOpenMessage mid t topic = newMessage mid t openEvent topic []"

definition newKeepaliveMessage :: "string \<Rightarrow> int \<Rightarrow> string \<Rightarrow> message" where
  "newKeepaliveMessage mid t topic = newMessage mid t keepaliveEvent topic []"

text \<open>
  An HTTP request, as far as the handlers look at it: \<^verbatim>\<open>r.Header.Get\<close> and
  \<^verbatim>\<open>r.URL.Query().Get\<close> (both return the empty string for an absent name) and
  \<^verbatim>\<open>r.URL.Path\<close>.
\<close>

record request =
  Header :: "string \<Rightarrow> string"
  Query :: "string \<Rightarrow> string"
  Path :: string

text \<open>
  \<^verbatim>\<open>readParam\<close>: the first header among the names with a non-empty value wins, trimmed;
  otherwise the first query parameter (lower-cased name) with a non-empty value, trimmed;
  otherwise the empty string.
\<close>

fun readHeaders :: "request \<Rightarrow> string list \<Rightarrow> string option" where
  "readHeaders r [] = None"
| "readHeaders r (name # names) =
     (let v = Header r name in if v \<noteq> [] then Some (TrimSpace v) else readHeaders r names)"

fun readQuery :: "request \<Rightarrow> string list \<Rightarrow> string option" where
  "readQuery r [] = None"
| "readQuery r (name # names) =
     (let v = Query r (ToLower name) in if v \<noteq> [] then Some (TrimSpace v) else readQuery r names)"

definition readParam :: "request \<Rightarrow> string list \<Rightarrow> string" where
  "readParam r names =
     (case readHeaders r names of
        Some v \<Rightarrow> v
      | None \<Rightarrow> (case readQuery r names of Some v \<Rightarrow> v | None \<Rightarrow> []))"

text \<open>
  The fields of \<^verbatim>\<open>Config\<close> that the modelled functions read. Durations are in
  nanoseconds, as \<^verbatim>\<open>time.Duration\<close> is.
\<close>

record config =
  BaseURL :: string
  AttachmentCacheDir :: string
  AttachmentExpiryDuration :: int
  AttachmentFileSizeLimit :: int
  VisitorAttachmentTotalSizeLimit :: int
  MinDelay :: int
  MaxDelay :: int
  TotalTopicLimit :: int
  VisitorRequestLimitBurst :: int
  VisitorRequestLimitReplenish :: int

text \<open>
  \<^verbatim>\<open>sinceTime\<close> is a \<^verbatim>\<open>time.Time\<close>, and \<^verbatim>\<open>IsAll\<close> and \<^verbatim>\<open>IsNone\<close> compare it with \<^verbatim>\<open>==\<close>
  against the two sentinels. A value built by \<^verbatim>\<open>time.Unix(s, 0)\<close> is \<^term>\<open>UnixTime s\<close>: two
  of them are equal exactly when the seconds are. A value derived from \<^verbatim>\<open>time.Now()\<close> is
  \<^term>\<open>ClockTime t\<close> (nanoseconds): it carries a monotonic clock reading, so it is never
  \<^verbatim>\<open>==\<close> to a value built by \<^verbatim>\<open>time.Unix\<close>.
\<close>

datatype sinceTime = UnixTime int | ClockTime int

definition sinceAllMessages :: sinceTime where
  "sinceAllMessages = UnixTime 0"

definition sinceNoMessages :: sinceTime where
  "sinceNoMessages = UnixTime 1"

definition IsAll :: "sinceTime \<Rightarrow> bool" where
  "IsAll t = (t = sinceAllMessages)"

definition IsNone :: "sinceTime \<Rightarrow> bool" where
  "IsNone t = (t = sinceNoMessages)"

text \<open>
  What a handler gets from outside the modelled code. Instants are nanoseconds since the
  unix epoch; a request is handled at the single clock reading \<^verbatim>\<open>now\<close>.
  \<^item> \<^verbatim>\<open>emailAllowed\<close>, \<^verbatim>\<open>subscriptionAllowed\<close>: whether \<^verbatim>\<open>v.EmailAllowed()\<close> and
    \<^verbatim>\<open>v.SubscriptionAllowed()\<close> let the request through;
  \<^item> \<^verbatim>\<open>ParseFutureTime\<close>: \<^verbatim>\<open>util.ParseFutureTime\<close> (not among the sources), giving an
    instant or failing;
  \<^item> \<^verbatim>\<open>SplitNoEmpty\<close>: \<^verbatim>\<open>util.SplitNoEmpty\<close> (not among the sources);
  \<^item> \<^verbatim>\<open>urlPathBase\<close>: \<^verbatim>\<open>path.Base\<close> of the path of \<^verbatim>\<open>url.Parse\<close>, \<^term>\<open>None\<close> when
    the URL does not parse;
  \<^item> \<^verbatim>\<open>DetectContentType\<close>: \<^verbatim>\<open>util.DetectContentType\<close>, giving MIME type and extension;
  \<^item> \<^verbatim>\<open>attachmentsSize\<close>: the result of \<^verbatim>\<open>cache.AttachmentsSize\<close> for the visitor;
  \<^item> \<^verbatim>\<open>fileWrite\<close>: the result of \<^verbatim>\<open>fileCache.Write\<close> given the remaining quota (the
    number of bytes written, or an error; \<^verbatim>\<open>ErrLimitReached\<close> is \<^term>\<open>Inl None\<close>);
  \<^item> \<^verbatim>\<open>publishFails\<close>, \<^verbatim>\<open>firebaseFails\<close>, \<^verbatim>\<open>addMessageFails\<close>, \<^verbatim>\<open>markPublishedFails\<close>: whether
    \<^verbatim>\<open>topic.Publish\<close>, the push hook, \<^verbatim>\<open>cache.AddMessage\<close> and \<^verbatim>\<open>cache.MarkPublished\<close> return
    an error for the message;
  \<^item> \<^verbatim>\<open>ParseDuration\<close>: \<^verbatim>\<open>time.ParseDuration\<close>, giving nanoseconds or failing;
  \<^item> \<^verbatim>\<open>cacheMessages\<close>: \<^verbatim>\<open>cache.Messages(topic, since, scheduled)\<close> (the cache is not among
    the sources);
  \<^item> \<^verbatim>\<open>messagesDue\<close>: the result of \<^verbatim>\<open>cache.MessagesDue()\<close>;
  \<^item> \<^verbatim>\<open>writeFails\<close>: whether encoding the message and writing it to the connection
    returns an error.
\<close>

record env =
  now :: int
  emailAllowed :: bool
  subscriptionAllowed :: bool
  ParseFutureTime :: "string \<Rightarrow> int \<Rightarrow> int option"
  SplitNoEmpty :: "string \<Rightarrow> string \<Rightarrow> string list"
  urlPathBase :: "string \<Rightarrow> string option"
  DetectContentType :: "string \<Rightarrow> string \<Rightarrow> string \<times> string"
  attachmentsSize :: "error + int"
  fileWrite :: "int \<Rightarrow> (error option) + int"
  publishFails :: "message \<Rightarrow> bool"
  firebaseFails :: "message \<Rightarrow> bool"
  addMessageFails :: "message \<Rightarrow> bool"
  markPublishedFails :: "message \<Rightarrow> bool"
  ParseDuration :: "string \<Rightarrow> int option"
  cacheMessages :: "string \<Rightarrow> sinceTime \<Rightarrow> bool \<Rightarrow> error + message list"
  messagesDue :: "error + message list"
  writeFails :: "message \<Rightarrow> bool"

text \<open>\<^verbatim>\<open>t.Unix()\<close>: the whole seconds of an instant.\<close>

definition Unix :: "int \<Rightarrow> int" where
  "Unix t = t div 1000000000"

text \<open>
  \<^verbatim>\<open>strconv.ParseInt(s, 10, 64)\<close>: an optional sign, then one or more decimal digits, and a
  value that fits 64 signed bits; anything else is an error.
\<close>

definition isDigit :: "char \<Rightarrow> bool" where
  "isDigit c = (48 \<le> (of_char c :: nat) \<and> (of_char c :: nat) \<le> 57)"

definition digitsValue :: "string \<Rightarrow> int" where
  "digitsValue ds = foldl (\<lambda>a c. 10 * a + (int (of_char c) - 48)) 0 ds"

definition ParseInt :: "string \<Rightarrow> int option" where
  "ParseInt s =
     (case s of
        [] \<Rightarrow> None
      | c # rest \<Rightarrow>
          (let neg = (c = CHR ''-'');
               ds = (if c = CHR ''+'' \<or> c = CHR ''-'' then rest else s)
           in if ds = [] \<or> \<not> list_all isDigit ds then None
              else (let v = (if neg then - digitsValue ds else digitsValue ds)
                    in if - 9223372036854775808 \<le> v \<and> v \<le> 9223372036854775807
                       then Some v else None)))"

text \<open>
  \<^verbatim>\<open>utf8.Valid\<close> of the Go standard library: a sequence of well-formed UTF-8 encodings
  (no overlong forms, no surrogates, nothing above U+10FFFF), on the bytes as numbers.
\<close>

definition cont :: "nat \<Rightarrow> bool" where
  "cont b = (128 \<le> b \<and> b \<le> 191)"

fun validBytes :: "nat list \<Rightarrow> bool" where
  "validBytes [] = True"
| "validBytes (b # bs) =
     (if b < 128 then validBytes bs
      else if 194 \<le> b \<and> b \<le> 223 then
        (case bs of c1 # r \<Rightarrow> cont c1 \<and> validBytes r | _ \<Rightarrow> False)
      else if 224 \<le> b \<and> b \<le> 239 then
        (case bs of
           c1 # c2 # r \<Rightarrow>
             (if b = 224 then 160 \<le> c1 \<and> c1 \<le> 191
              else if b = 237 then 128 \<le> c1 \<and> c1 \<le> 159
              else cont c1) \<and> cont c2 \<and> validBytes r
         | _ \<Rightarrow> False)
      else if 240 \<le> b \<and> b \<le> 244 then
        (case bs of
           c1 # c2 # c3 # r \<Rightarrow>
             (if b = 240 then 144 \<le> c1 \<and> c1 \<le> 191
              else if b = 244 then 128 \<le> c1 \<and> c1 \<le> 143
              else cont c1) \<and> cont c2 \<and> cont c3 \<and> validBytes r
         | _ \<Rightarrow> False)
      else False)"

definition utf8Valid :: "string \<Rightarrow> bool" where
  "utf8Valid s = validBytes (map of_char s)"

section \<open>The server\<close>

text \<open>
  Modelled from the spec: the declaration of \<^verbatim>\<open>topic\<close> is not among the sources; a topic
  has a name, and \<^verbatim>\<open>newTopic\<close> makes the topic of that name. The subscriber map of a
  topic is not read by the functions modelled here.
\<close>

record topic =
  topicID :: string

definition newTopic :: "string \<Rightarrow> topic" where
  "newTopic tid = \<lparr>topicID = tid\<rparr>"

text \<open>
  A visitor (\<^verbatim>\<open>server/visitor.go\<close>), as far as the modelled functions read it: the
  address and the instant it was last seen. The limiters enter through \<^typ>\<open>env\<close>.
\<close>

record visitor =
  ip :: string
  seen :: int

text \<open>
  The \<^verbatim>\<open>Server\<close>: the two registries are Go maps, hence finite maps; \<^verbatim>\<open>firebase\<close>,
  \<^verbatim>\<open>mailer\<close> and \<^verbatim>\<open>fileCache\<close> say whether the hook or the file cache is configured
  (not \<^verbatim>\<open>nil\<close>).
\<close>

record server =
  conf :: config
  topics :: "(string, topic) fmap"
  visitors :: "(string, visitor) fmap"
  firebase :: bool
  mailer :: bool
  fileCache :: bool
  messages :: int

subsection \<open>Publishing: parameters\<close>

text \<open>The regular expression \<^verbatim>\<open>^https?://\<close>, matched against the start of the string.\<close>

definition attachURLRegex :: "string \<Rightarrow> bool" where
  "attachURLRegex s = (take 7 s = ''http://'' \<or> take 8 s = ''https://'')"

definition setAttachment :: "(attachment \<Rightarrow> attachment) \<Rightarrow> message \<Rightarrow> message" where
  "setAttachment f m = m\<lparr>Attachment := map_option f (Attachment m)\<rparr>"

definition attachmentName :: "message \<Rightarrow> string" where
  "attachmentName m = (case Attachment m of None \<Rightarrow> [] | Some a \<Rightarrow> Name a)"

definition attachmentURL :: "message \<Rightarrow> string" where
  "attachmentURL m = (case Attachment m of None \<Rightarrow> [] | Some a \<Rightarrow> URL a)"

text \<open>
  The block of \<^verbatim>\<open>parsePublishParams\<close> that runs when \<^verbatim>\<open>attach\<close> is a valid URL: it
  stores the URL and, when there is no name yet, derives one from the URL's path, with
  \<^verbatim>\<open>attachment\<close> as the last resort.
\<close>

definition attachExternal :: "env \<Rightarrow> string \<Rightarrow> message \<Rightarrow> message" where
  "attachExternal e attach m =
     (let m1 = setAttachment (\<lambda>a. a\<lparr>URL := attach\<rparr>) m;
          m2 = (if attachmentName m1 = [] then
                  (case urlPathBase e attach of
                     None \<Rightarrow> m1
                   | Some b \<Rightarrow>
                       setAttachment (\<lambda>a. a\<lparr>Name := (if b = ''.'' \<or> b = ''/'' then [] else b)\<rparr>) m1)
                else m1)
      in if attachmentName m2 = [] then setAttachment (\<lambda>a. a\<lparr>Name := ''attachment''\<rparr>) m2
         else m2)"

text \<open>The delay block of \<^verbatim>\<open>parsePublishParams\<close>.\<close>

definition parseDelay :: "server \<Rightarrow> env \<Rightarrow> bool \<Rightarrow> string \<Rightarrow> string \<Rightarrow> message \<Rightarrow> error + message" where
  "parseDelay s e cache email delayStr m =
     (if delayStr \<noteq> [] then
        (if \<not> cache then Inl errHTTPBadRequestDelayNoCache
         else if email \<noteq> [] then Inl errHTTPBadRequestDelayNoEmail
         else (case ParseFutureTime e delayStr (now e) of
                 None \<Rightarrow> Inl errHTTPBadRequestDelayCannotParse
               | Some delay \<Rightarrow>
                   if Unix delay < Unix (now e + MinDelay (conf s)) then
                     Inl errHTTPBadRequestDelayTooSmall
                   else if Unix delay > Unix (now e + MaxDelay (conf s)) then
                     Inl errHTTPBadRequestDelayTooLarge
                   else Inr (m\<lparr>Time := Unix delay\<rparr>)))
      else Inr m)"

text \<open>
  The attachment block of \<^verbatim>\<open>parsePublishParams\<close>, for an \<^verbatim>\<open>attach\<close> value that is
  empty or has passed the check of the URL: the attachment is allocated when either
  parameter is there, the file name stored, then the external URL.
\<close>

definition attachParams :: "env \<Rightarrow> string \<Rightarrow> string \<Rightarrow> message \<Rightarrow> message" where
  "attachParams e filename attach m =
     (let m2 = (if attach \<noteq> [] \<or> filename \<noteq> [] then m\<lparr>Attachment := Some emptyAttachment\<rparr>
                else m);
          m3 = (if filename \<noteq> [] then setAttachment (\<lambda>a. a\<lparr>Name := filename\<rparr>) m2 else m2)
      in if attach \<noteq> [] then attachExternal e attach m3 else m3)"

definition messageParam :: "string \<Rightarrow> message \<Rightarrow> message" where
  "messageParam messageStr m = (if messageStr \<noteq> [] then m\<lparr>Message := messageStr\<rparr> else m)"

definition tagsParam :: "env \<Rightarrow> string \<Rightarrow> message \<Rightarrow> message" where
  "tagsParam e tagsStr m =
     (if tagsStr \<noteq> [] then m\<lparr>Tags := map TrimSpace (SplitNoEmpty e tagsStr '','')\<rparr> else m)"

text \<open>
  \<^verbatim>\<open>parsePublishParams\<close>: the result is the error, or the flags \<^verbatim>\<open>cache\<close> and
  \<^verbatim>\<open>firebase\<close>, the e-mail address and the message as the function leaves it.
\<close>

definition parsePublishParams ::
  "server \<Rightarrow> env \<Rightarrow> request \<Rightarrow> message \<Rightarrow> error + (bool \<times> bool \<times> string \<times> message)" where
  "parsePublishParams s e r m =
     (let cache = (readParam r [''x-cache'', ''cache''] \<noteq> ''no'');
          firebase = (readParam r [''x-firebase'', ''firebase''] \<noteq> ''no'');
          m1 = m\<lparr>Title := readParam r [''x-title'', ''title'', ''t''],
                 Click := readParam r [''x-click'', ''click'']\<rparr>;
          filename = readParam r [''x-filename'', ''filename'', ''file'', ''f''];
          attach = readParam r [''x-attach'', ''attach'', ''a'']
      in if attach \<noteq> [] \<and> \<not> attachURLRegex attach then Inl errHTTPBadRequestAttachmentURLInvalid
         else
          (let m4 = attachParams e filename attach m1;
               email = readParam r [''x-email'', ''x-e-mail'', ''email'', ''e-mail'', ''mail'', ''e'']
           in if email \<noteq> [] \<and> \<not> emailAllowed e then Inl errHTTPTooManyRequestsLimitEmails
              else if \<not> mailer s \<and> email \<noteq> [] then Inl errHTTPBadRequestEmailDisabled
              else
               (let m5 = messageParam (readParam r [''x-message'', ''message'', ''m'']) m4
                in case ParsePriority (readParam r [''x-priority'', ''priority'', ''prio'', ''p'']) of
                     Inl _ \<Rightarrow> Inl errHTTPBadRequestPriorityInvalid
                   | Inr p \<Rightarrow>
                      (let m7 = tagsParam e (readParam r [''x-tags'', ''tags'', ''tag'', ''ta''])
                                  (m5\<lparr>Priority := p\<rparr>);
                           delayStr = readParam r [''x-delay'', ''delay'', ''x-at'', ''at'', ''x-in'', ''in'']
                       in case parseDelay s e cache email delayStr m7 of
                            Inl err \<Rightarrow> Inl err
                          | Inr m8 \<Rightarrow>
                             (let unifiedpush =
                                    (readParam r [''x-unifiedpush'', ''unifiedpush'', ''up''] = ''1'')
                              in Inr (cache, (if unifiedpush then False else firebase), email, m8))))))"

subsection \<open>Topics\<close>

definition disallowedTopics :: "string list" where
  "disallowedTopics = [''docs'', ''static'', ''file'']"

text \<open>
  \<^verbatim>\<open>topicsFromIDs\<close>: the loop over the ids, with the topics found so far; the server is
  returned as the loop leaves it, also when it returns an error. \<^verbatim>\<open>len(s.topics)\<close> is
  the number of keys.
\<close>

fun topicsFromIDsLoop :: "server \<Rightarrow> string list \<Rightarrow> topic list \<Rightarrow> (error + topic list) \<times> server" where
  "topicsFromIDsLoop s [] found = (Inr found, s)"
| "topicsFromIDsLoop s (tid # ids) found =
     (if InStringList disallowedTopics tid then (Inl errHTTPBadRequestTopicDisallowed, s)
      else (case fmlookup (topics s) tid of
              Some t \<Rightarrow> topicsFromIDsLoop s ids (found @ [t])
            | None \<Rightarrow>
                if int (fcard (fmdom (topics s))) \<ge> TotalTopicLimit (conf s) then
                  (Inl errHTTPTooManyRequestsLimitTotalTopics, s)
                else topicsFromIDsLoop (s\<lparr>topics := fmupd tid (newTopic tid) (topics s)\<rparr>) ids
                       (found @ [newTopic tid])))"

definition topicsFromIDs :: "server \<Rightarrow> string list \<Rightarrow> (error + topic list) \<times> server" where
  "topicsFromIDs s ids = topicsFromIDsLoop s ids []"

text \<open>\<^verbatim>\<open>strings.Split\<close> on a one-byte separator.\<close>

fun Split :: "string \<Rightarrow> char \<Rightarrow> string list" where
  "Split [] sep = [[]]"
| "Split (c # cs) sep =
     (if c = sep then [] # Split cs sep
      else (case Split cs sep of [] \<Rightarrow> [[c]] | p # ps \<Rightarrow> (c # p) # ps))"

definition topicFromPath :: "server \<Rightarrow> string \<Rightarrow> (error + topic) \<times> server" where
  "topicFromPath s path =
     (let parts = Split path CHR ''/'' in
      if length parts < 2 then (Inl errHTTPBadRequestTopicInvalid, s)
      else (case topicsFromIDs s [parts ! 1] of
              (Inl err, s') \<Rightarrow> (Inl err, s')
            | (Inr ts, s') \<Rightarrow>
                (case ts of [] \<Rightarrow> (Inl (errOther ''index out of range''), s')
                          | t # _ \<Rightarrow> (Inr t, s'))))"

subsection \<open>Publishing: the body\<close>

text \<open>
  Modelled from the spec: \<^verbatim>\<open>util.PeakedReadCloser\<close> is not among the sources; it is the
  buffered reader of the design notes, holding the bytes peeked (at most the message
  limit) and recording whether the body went beyond the limit.
\<close>

record PeakedReadCloser =
  PeakedBytes :: string
  LimitReached :: bool

datatype disposition = BodyAsMessage | BodyAsAttachment

definition defaultAttachmentMessage :: "string \<Rightarrow> string" where
  "defaultAttachmentMessage name = ''You received a file: '' @ name"

definition handleBodyAsMessage :: "message \<Rightarrow> PeakedReadCloser \<Rightarrow> error + message" where
  "handleBodyAsMessage m body =
     (if \<not> utf8Valid (PeakedBytes body) then Inl errHTTPBadRequestMessageNotUTF8
      else
       (let m1 = (if length (PeakedBytes body) > 0 then m\<lparr>Message := TrimSpace (PeakedBytes body)\<rparr>
                  else m)
        in Inr (if Attachment m1 \<noteq> None \<and> attachmentName m1 \<noteq> [] \<and> Message m1 = []
                then m1\<lparr>Message := defaultAttachmentMessage (attachmentName m1)\<rparr>
                else m1)))"

definition handleBodyAsAttachment ::
  "server \<Rightarrow> env \<Rightarrow> request \<Rightarrow> visitor \<Rightarrow> message \<Rightarrow> PeakedReadCloser \<Rightarrow> error + message" where
  "handleBodyAsAttachment s e r v m body =
     (if \<not> fileCache s \<or> BaseURL (conf s) = [] \<or> AttachmentCacheDir (conf s) = [] then
        Inl errHTTPBadRequestAttachmentsDisallowed
      else if Time m > Unix (now e + AttachmentExpiryDuration (conf s)) then
        Inl errHTTPBadRequestAttachmentsExpiryBeforeDelivery
      else
       (case attachmentsSize e of
          Inl err \<Rightarrow> Inl err
        | Inr visitorAttachmentsSize \<Rightarrow>
           (let remainingVisitorAttachmentSize =
                  VisitorAttachmentTotalSizeLimit (conf s) - visitorAttachmentsSize;
                contentLengthStr = Header r ''Content-Length''
            in if contentLengthStr \<noteq> [] \<and>
                  (case ParseInt contentLengthStr of
                     None \<Rightarrow> False
                   | Some contentLength \<Rightarrow>
                       contentLength > remainingVisitorAttachmentSize \<or>
                       contentLength > AttachmentFileSizeLimit (conf s))
               then Inl errHTTPBadRequestAttachmentTooLarge
               else
                (let a = (case Attachment m of None \<Rightarrow> emptyAttachment | Some a \<Rightarrow> a);
                     (ty, ext) = DetectContentType e (PeakedBytes body) (Name a);
                     a1 = a\<lparr>Owner := ip v,
                             Expires := Unix (now e + AttachmentExpiryDuration (conf s)),
                             Type := ty,
                             URL := BaseURL (conf s) @ ''/file/'' @ ID m @ ext\<rparr>;
                     a2 = (if Name a1 = [] then a1\<lparr>Name := ''attachment'' @ ext\<rparr> else a1);
                     msg = (if Message m = [] then defaultAttachmentMessage (Name a2) else Message m)
                 in case fileWrite e remainingVisitorAttachmentSize of
                      Inl None \<Rightarrow> Inl errHTTPBadRequestAttachmentTooLarge
                    | Inl (Some err) \<Rightarrow> Inl err
                    | Inr written \<Rightarrow>
                        Inr (m\<lparr>Attachment := Some (a2\<lparr>Size := written\<rparr>), Message := msg\<rparr>)))))"

text \<open>
  \<^verbatim>\<open>handlePublishBody\<close>: the chain of conditions picks the handler (cases 1 to 4 of the
  source), which then consumes the body.
\<close>

definition bodyDisposition :: "message \<Rightarrow> PeakedReadCloser \<Rightarrow> disposition" where
  "bodyDisposition m body =
     (if Attachment m \<noteq> None \<and> attachmentURL m \<noteq> [] then BodyAsMessage
      else if Attachment m \<noteq> None \<and> attachmentName m \<noteq> [] then BodyAsAttachment
      else if \<not> LimitReached body \<and> utf8Valid (PeakedBytes body) then BodyAsMessage
      else BodyAsAttachment)"

definition handlePublishBody ::
  "server \<Rightarrow> env \<Rightarrow> request \<Rightarrow> visitor \<Rightarrow> message \<Rightarrow> PeakedReadCloser \<Rightarrow> error + message" where
  "handlePublishBody s e r v m body =
     (case bodyDisposition m body of
        BodyAsMessage \<Rightarrow> handleBodyAsMessage m body
      | BodyAsAttachment \<Rightarrow> handleBodyAsAttachment s e r v m body)"

subsection \<open>Publishing: the handler\<close>

text \<open>
  What a handler or a background loop does to the world outside the server's own maps, in
  the order of the calls: a fan-out on a topic, a task spawned for the push hook or for
  the mailer (sender address, recipient, message), a direct call of the push hook, a
  write to the message cache, marking a cached message published, and a line written to
  the log.
\<close>

datatype effect =
    TopicPublish string message
  | SpawnFirebase message
  | SpawnMail string string message
  | CallFirebase message
  | CacheAddMessage message
  | CacheMarkPublished message
  | LogError string

definition emptyMessageBody :: string where
  "emptyMessageBody = ''triggered''"

text \<open>
  \<^verbatim>\<open>handlePublish\<close>, given the result of \<^verbatim>\<open>util.Peak\<close> on the body and the id of the new
  message. It returns the error or the message written to the response, the server, and
  the effects. The two tasks are only spawned: what the hooks return is logged inside the
  task and reaches neither the result nor the server. Writing the response is taken to
  succeed; \<^verbatim>\<open>s.inc\<close> adds one to the counter.
\<close>

definition publishEffects ::
  "server \<Rightarrow> visitor \<Rightarrow> topic \<Rightarrow> bool \<Rightarrow> bool \<Rightarrow> string \<Rightarrow> bool \<Rightarrow> message \<Rightarrow> effect list" where
  "publishEffects s v t cache firebaseFlag email delayed m =
     (if \<not> delayed then [TopicPublish (topicID t) m] else []) @
     (if firebase s \<and> firebaseFlag \<and> \<not> delayed then [SpawnFirebase m] else []) @
     (if mailer s \<and> email \<noteq> [] \<and> \<not> delayed then [SpawnMail (ip v) email m] else []) @
     (if cache then [CacheAddMessage m] else [])"

definition handlePublish ::
  "server \<Rightarrow> env \<Rightarrow> request \<Rightarrow> visitor \<Rightarrow> error + PeakedReadCloser \<Rightarrow> string \<Rightarrow>
     (error + message) \<times> server \<times> effect list" where
  "handlePublish s e r v peaked mid =
     (case topicFromPath s (Path r) of
        (Inl err, s1) \<Rightarrow> (Inl err, s1, [])
      | (Inr t, s1) \<Rightarrow>
         (case peaked of
            Inl err \<Rightarrow> (Inl err, s1, [])
          | Inr body \<Rightarrow>
             (case parsePublishParams s1 e r (newDefaultMessage mid (Unix (now e)) (topicID t) []) of
                Inl err \<Rightarrow> (Inl err, s1, [])
              | Inr (cache, firebaseFlag, email, m1) \<Rightarrow>
                 (case handlePublishBody s1 e r v m1 body of
                    Inl err \<Rightarrow> (Inl err, s1, [])
                  | Inr m2 \<Rightarrow>
                     (let m = (if Message m2 = [] then m2\<lparr>Message := emptyMessageBody\<rparr> else m2);
                          delayed = (Time m > Unix (now e))
                      in if \<not> delayed \<and> publishFails e m then
                           (Inl (errOther ''publish''), s1, [TopicPublish (topicID t) m])
                         else if cache \<and> addMessageFails e m then
                           (Inl (errOther ''cache''), s1,
                            publishEffects s1 v t cache firebaseFlag email delayed m)
                         else
                           (Inr m, s1\<lparr>messages := messages s1 + 1\<rparr>,
                            publishEffects s1 v t cache firebaseFlag email delayed m))))))"

subsection \<open>Subscribing\<close>

text \<open>
  The arithmetic of \<^verbatim>\<open>int64\<close>, which \<^verbatim>\<open>time.Duration\<close> is: a result outside the range
  wraps around.
\<close>

definition wrapInt64 :: "int \<Rightarrow> int" where
  "wrapInt64 v = (v + 9223372036854775808) mod 18446744073709551616 - 9223372036854775808"

text \<open>
  \<^verbatim>\<open>parseSince\<close>: no parameter gives a sentinel that depends on \<^verbatim>\<open>poll\<close>; otherwise
  \<^verbatim>\<open>all\<close>, an integer (unix seconds) or a duration before now, in this order. The
  product \<^verbatim>\<open>-1 * d\<close> is taken in \<^verbatim>\<open>int64\<close>, so the least duration is its own negation.
\<close>

definition parseSince :: "env \<Rightarrow> request \<Rightarrow> bool \<Rightarrow> error + sinceTime" where
  "parseSince e r poll =
     (let since = readParam r [''x-since'', ''since'', ''si''] in
      if since = [] then (if poll then Inr sinceAllMessages else Inr sinceNoMessages)
      else if since = ''all'' then Inr sinceAllMessages
      else (case ParseInt since of
              Some sec \<Rightarrow> Inr (UnixTime sec)
            | None \<Rightarrow>
               (case ParseDuration e since of
                  Some d \<Rightarrow> Inr (ClockTime (now e + wrapInt64 ((- 1) * d)))
                | None \<Rightarrow> Inl errHTTPBadRequestSinceInvalid)))"

text \<open>
  Modelled from the spec: \<^verbatim>\<open>util.InIntList\<close> and \<^verbatim>\<open>util.InStringListAll\<close> are not among
  the sources. Tag filtering requires the message tag set to contain every filter tag, so
  \<^verbatim>\<open>InStringListAll haystack needles\<close> holds when every needle is in the haystack;
  \<^verbatim>\<open>InIntList\<close> is membership, as \<^verbatim>\<open>InStringList\<close> is in the sources.
\<close>

fun InIntList :: "int list \<Rightarrow> int \<Rightarrow> bool" where
  "InIntList [] needle = False"
| "InIntList (i # haystack) needle = (if i = needle then True else InIntList haystack needle)"

definition InStringListAll :: "string list \<Rightarrow> string list \<Rightarrow> bool" where
  "InStringListAll haystack needles = list_all (InStringList haystack) needles"

fun parsePriorities :: "string list \<Rightarrow> int list \<Rightarrow> error + int list" where
  "parsePriorities [] priorityFilter = Inr priorityFilter"
| "parsePriorities (p # ps) priorityFilter =
     (case ParsePriority p of
        Inl err \<Rightarrow> Inl err
      | Inr priority \<Rightarrow> parsePriorities ps (priorityFilter @ [priority]))"

definition parseQueryFilters ::
  "env \<Rightarrow> request \<Rightarrow> error + (string \<times> string \<times> int list \<times> string list)" where
  "parseQueryFilters e r =
     (let messageFilter = readParam r [''x-message'', ''message'', ''m''];
          titleFilter = readParam r [''x-title'', ''title'', ''t''];
          tagsFilter = SplitNoEmpty e (readParam r [''x-tags'', ''tags'', ''tag'', ''ta'']) '',''
      in case parsePriorities
                (SplitNoEmpty e (readParam r [''x-priority'', ''priority'', ''prio'', ''p'']) '','') [] of
           Inl err \<Rightarrow> Inl err
         | Inr priorityFilter \<Rightarrow> Inr (messageFilter, titleFilter, priorityFilter, tagsFilter))"

definition passesQueryFilter ::
  "message \<Rightarrow> string \<Rightarrow> string \<Rightarrow> int list \<Rightarrow> string list \<Rightarrow> bool" where
  "passesQueryFilter msg messageFilter titleFilter priorityFilter tagsFilter =
     (if Event msg \<noteq> messageEvent then True
      else if messageFilter \<noteq> [] \<and> Message msg \<noteq> messageFilter then False
      else if titleFilter \<noteq> [] \<and> Title msg \<noteq> titleFilter then False
      else
       (let messagePriority = (if Priority msg = 0 then 3 else Priority msg)
        in if length priorityFilter > 0 \<and> \<not> InIntList priorityFilter messagePriority then False
           else if length tagsFilter > 0 \<and> \<not> InStringListAll (Tags msg) tagsFilter then False
           else True))"

text \<open>
  The subscriber callback \<^verbatim>\<open>sub\<close> of \<^verbatim>\<open>handleSubscribe\<close> and \<^verbatim>\<open>handleSubscribeWS\<close>: a
  message that does not pass the filters is dropped without error; otherwise it is encoded
  and written. The result is the error, if any, and what was written to the connection.
\<close>

type_synonym subscriber = "message \<Rightarrow> error option \<times> message list"

definition sub :: "env \<Rightarrow> string \<Rightarrow> string \<Rightarrow> int list \<Rightarrow> string list \<Rightarrow> subscriber" where
  "sub e messageFilter titleFilter priorityFilter tagsFilter msg =
     (if \<not> passesQueryFilter msg messageFilter titleFilter priorityFilter tagsFilter then (None, [])
      else if writeFails e msg then (Some (errOther ''write''), [])
      else (None, [msg]))"

text \<open>\<^verbatim>\<open>sendOldMessages\<close>: the inner loop over the messages, the outer loop over the topics.\<close>

fun sendEach :: "subscriber \<Rightarrow> message list \<Rightarrow> error option \<times> message list" where
  "sendEach sb [] = (None, [])"
| "sendEach sb (m # ms) =
     (case sb m of
        (Some err, w) \<Rightarrow> (Some err, w)
      | (None, w) \<Rightarrow> (case sendEach sb ms of (res, w') \<Rightarrow> (res, w @ w')))"

fun sendTopics ::
  "env \<Rightarrow> sinceTime \<Rightarrow> bool \<Rightarrow> subscriber \<Rightarrow> topic list \<Rightarrow> error option \<times> message list" where
  "sendTopics e since scheduled sb [] = (None, [])"
| "sendTopics e since scheduled sb (t # ts) =
     (case cacheMessages e (topicID t) since scheduled of
        Inl err \<Rightarrow> (Some err, [])
      | Inr msgs \<Rightarrow>
         (case sendEach sb msgs of
            (Some err, w) \<Rightarrow> (Some err, w)
          | (None, w) \<Rightarrow>
             (case sendTopics e since scheduled sb ts of (res, w') \<Rightarrow> (res, w @ w'))))"

definition sendOldMessages ::
  "env \<Rightarrow> topic list \<Rightarrow> sinceTime \<Rightarrow> bool \<Rightarrow> subscriber \<Rightarrow> error option \<times> message list" where
  "sendOldMessages e ts since scheduled sb =
     (if IsNone since then (None, []) else sendTopics e since scheduled sb ts)"

text \<open>\<^verbatim>\<open>strings.TrimSuffix\<close>.\<close>

definition TrimSuffix :: "string \<Rightarrow> string \<Rightarrow> string" where
  "TrimSuffix str suffix =
     (if length suffix \<le> length str \<and> drop (length str - length suffix) str = suffix
      then take (length str - length suffix) str else str)"

text \<open>
  \<^verbatim>\<open>handleSubscribe\<close>, as its own goroutine runs it, up to the keepalive loop: the
  error, the server (topics may have been created), and what the handler itself wrote to
  the connection. In the streaming case the callback is registered on every topic before
  the open message is sent; what publishers write through it meanwhile is the subject of
  the step relation below.
\<close>

definition handleSubscribe ::
  "server \<Rightarrow> env \<Rightarrow> request \<Rightarrow> string \<Rightarrow> string \<Rightarrow> error option \<times> server \<times> message list" where
  "handleSubscribe s e r format mid =
     (if \<not> subscriptionAllowed e then (Some errHTTPTooManyRequestsLimitSubscriptions, s, [])
      else
       (let topicsStr = TrimSuffix (drop 1 (Path r)) (''/'' @ format);
            topicIDs = SplitNoEmpty e topicsStr '',''
        in case topicsFromIDs s topicIDs of
             (Inl err, s1) \<Rightarrow> (Some err, s1, [])
           | (Inr ts, s1) \<Rightarrow>
              (let poll = (readParam r [''x-poll'', ''poll'', ''po''] = ''1'');
                   scheduled = (readParam r [''x-scheduled'', ''scheduled'', ''sched''] = ''1'')
               in case parseSince e r poll of
                    Inl err \<Rightarrow> (Some err, s1, [])
                  | Inr since \<Rightarrow>
                     (case parseQueryFilters e r of
                        Inl err \<Rightarrow> (Some err, s1, [])
                      | Inr (messageFilter, titleFilter, priorityFilter, tagsFilter) \<Rightarrow>
                         (let sb = sub e messageFilter titleFilter priorityFilter tagsFilter
                          in if poll then
                               (case sendOldMessages e ts since scheduled sb of
                                  (res, w) \<Rightarrow> (res, s1, w))
                             else
                               (case sb (newOpenMessage mid (Unix (now e)) topicsStr) of
                                  (Some err, w) \<Rightarrow> (Some err, s1, w)
                                | (None, w) \<Rightarrow>
                                   (case sendOldMessages e ts since scheduled sb of
                                      (res, w') \<Rightarrow> (res, s1, w @ w'))))))))"

subsection \<open>The scheduled-delivery loop\<close>

text \<open>
  The body of the loop of \<^verbatim>\<open>sendDelayedMessages\<close> for one due message, up to the call
  of \<^verbatim>\<open>MarkPublished\<close>: the fan-out when the topic is in the registry, the push hook when
  it is configured, each with a log line when it fails, then marking the message.
\<close>

definition deliverDelayed :: "server \<Rightarrow> env \<Rightarrow> message \<Rightarrow> effect list" where
  "deliverDelayed s e m =
     (case fmlookup (topics s) (Topic m) of
        Some t \<Rightarrow>
          TopicPublish (Topic m) m #
          (if publishFails e m then [LogError ''unable to publish message''] else [])
      | None \<Rightarrow> []) @
     (if firebase s then
        CallFirebase m # (if firebaseFails e m then [LogError ''unable to publish to Firebase''] else [])
      else []) @
     [CacheMarkPublished m]"

text \<open>
  The loop: an error of \<^verbatim>\<open>MarkPublished\<close> returns from the function, and the
  messages after it are left for a later run.
\<close>

fun sendDelayedLoop :: "server \<Rightarrow> env \<Rightarrow> message list \<Rightarrow> error option \<times> effect list" where
  "sendDelayedLoop s e [] = (None, [])"
| "sendDelayedLoop s e (m # ms) =
     (if markPublishedFails e m then (Some (errOther ''mark published''), deliverDelayed s e m)
      else (case sendDelayedLoop s e ms of (res, effs) \<Rightarrow> (res, deliverDelayed s e m @ effs)))"

definition sendDelayedMessages :: "server \<Rightarrow> env \<Rightarrow> error option \<times> effect list" where
  "sendDelayedMessages s e =
     (case messagesDue e of
        Inl err \<Rightarrow> (Some err, [])
      | Inr ms \<Rightarrow> sendDelayedLoop s e ms)"

text \<open>One turn of the loop of \<^verbatim>\<open>runAtSender\<close>, when the timer fires: an error is logged.\<close>

definition runAtSender :: "server \<Rightarrow> env \<Rightarrow> effect list" where
  "runAtSender s e =
     (case sendDelayedMessages s e of
        (Some err, effs) \<Rightarrow> effs @ [LogError ''error sending scheduled messages'']
      | (None, effs) \<Rightarrow> effs)"

subsection \<open>Visitors\<close>

text \<open>
  \<^verbatim>\<open>server/visitor.go\<close>: \<^verbatim>\<open>oneDay\<close> and \<^verbatim>\<open>visitorExpungeAfter\<close> in nanoseconds.
  \<^verbatim>\<open>time.Since\<close> is a \<^verbatim>\<open>time.Duration\<close>, a 64-bit integer that saturates.
\<close>

definition oneDay :: int where
  "oneDay = 24 * (60 * 60 * 1000000000)"

definition visitorExpungeAfter :: int where
  "visitorExpungeAfter = oneDay"

definition Since :: "int \<Rightarrow> int \<Rightarrow> int" where
  "Since current t = max (- 9223372036854775808) (min 9223372036854775807 (current - t))"

definition Stale :: "int \<Rightarrow> visitor \<Rightarrow> bool" where
  "Stale current v = (Since current (seen v) > visitorExpungeAfter)"

text \<open>
  The first loop of \<^verbatim>\<open>updateStatsAndPrune\<close> (\<^verbatim>\<open>server/server.go\<close>): every stale visitor is
  deleted from the map.
\<close>

definition expireVisitors :: "int \<Rightarrow> server \<Rightarrow> server" where
  "expireVisitors current s =
     s\<lparr>visitors :=
         fmfilter (\<lambda>addr. case fmlookup (visitors s) addr of
                            Some v \<Rightarrow> \<not> Stale current v
                          | None \<Rightarrow> False) (visitors s)\<rparr>"

text \<open>
  The staleness threshold in the words of the spec, for comparison: one full refill
  interval of the request limiter (the replenish interval times the burst) or a
  configured minimum, whichever is larger.
\<close>

definition specRefillInterval :: "config \<Rightarrow> int" where
  "specRefillInterval c = VisitorRequestLimitBurst c * VisitorRequestLimitReplenish c"

definition specStaleThreshold :: "config \<Rightarrow> int \<Rightarrow> int" where
  "specStaleThreshold c minimum = max (specRefillInterval c) minimum"

subsection \<open>A streaming connection and its writers\<close>

text \<open>
  Modelled from the spec: \<^verbatim>\<open>topic.Subscribe\<close> and \<^verbatim>\<open>topic.Publish\<close> are not among the
  sources; \<^verbatim>\<open>Subscribe\<close> stores the callback, and \<^verbatim>\<open>Publish\<close> invokes the callback of
  every subscriber registered at that moment. \<^verbatim>\<open>handleSubscribe\<close> and
  \<^verbatim>\<open>handleSubscribeWS\<close> run in the goroutine of the request; the callback they register is
  run by the goroutines of the publishers.

  The connection is a small transition system. The handler moves through its phases in
  the order of the source: it registers the callback on each topic, sends the open
  message, replays the cached messages, and then streams (keepalives). At any moment a
  publisher may publish on a topic on which the callback is registered. Every write goes
  through the callback, hence through the query filters, and is tagged with who wrote
  it.
\<close>

datatype phase = Registering | Opening | Replaying | Streaming

datatype writer = HandlerOpen | HandlerReplay | HandlerKeepalive | Publisher

record connection =
  phaseOf :: phase
  toRegister :: "string list"
  registered :: "string list"
  toReplay :: "message list"
  written :: "(writer \<times> message) list"

definition writeIf ::
  "string \<Rightarrow> string \<Rightarrow> int list \<Rightarrow> string list \<Rightarrow> writer \<Rightarrow> message \<Rightarrow> connection \<Rightarrow> connection" where
  "writeIf mf tf pf tgf w m c =
     (if passesQueryFilter m mf tf pf tgf then c\<lparr>written := written c @ [(w, m)]\<rparr> else c)"

inductive connStep ::
  "string \<Rightarrow> string \<Rightarrow> int list \<Rightarrow> string list \<Rightarrow> connection \<Rightarrow> connection \<Rightarrow> bool"
  for mf :: string and tf :: string and pf :: "int list" and tgf :: "string list" where
  register:
    "phaseOf c = Registering \<Longrightarrow> toRegister c = t # ts \<Longrightarrow>
     connStep mf tf pf tgf c (c\<lparr>toRegister := ts, registered := registered c @ [t]\<rparr>)"
| registered_all:
    "phaseOf c = Registering \<Longrightarrow> toRegister c = [] \<Longrightarrow>
     connStep mf tf pf tgf c (c\<lparr>phaseOf := Opening\<rparr>)"
| send_open:
    "phaseOf c = Opening \<Longrightarrow> Event m = openEvent \<Longrightarrow>
     connStep mf tf pf tgf c (writeIf mf tf pf tgf HandlerOpen m (c\<lparr>phaseOf := Replaying\<rparr>))"
| replay:
    "phaseOf c = Replaying \<Longrightarrow> toReplay c = m # ms \<Longrightarrow>
     connStep mf tf pf tgf c (writeIf mf tf pf tgf HandlerReplay m (c\<lparr>toReplay := ms\<rparr>))"
| replay_done:
    "phaseOf c = Replaying \<Longrightarrow> toReplay c = [] \<Longrightarrow>
     connStep mf tf pf tgf c (c\<lparr>phaseOf := Streaming\<rparr>)"
| keepalive:
    "phaseOf c = Streaming \<Longrightarrow> Event m = keepaliveEvent \<Longrightarrow>
     connStep mf tf pf tgf c (writeIf mf tf pf tgf HandlerKeepalive m c)"
| publish:
    "Topic m \<in> set (registered c) \<Longrightarrow>
     connStep mf tf pf tgf c (writeIf mf tf pf tgf Publisher m c)"

definition connStart :: "string list \<Rightarrow> message list \<Rightarrow> connection" where
  "connStart ts cached =
     \<lparr>phaseOf = Registering, toRegister = ts, registered = [], toReplay = cached, written = []\<rparr>"

definition reachable ::
  "string \<Rightarrow> string \<Rightarrow> int list \<Rightarrow> string list \<Rightarrow> string list \<Rightarrow> message list \<Rightarrow> connection \<Rightarrow> bool" where
  "reachable mf tf pf tgf ts cached c = (connStep mf tf pf tgf)\<^sup>*\<^sup>* (connStart ts cached) c"

text \<open>
  The two orders on the writers of a connection: no replayed line before the first open
  line, and no replayed line after a line written by a publisher.
\<close>

fun openBeforeReplay :: "writer list \<Rightarrow> bool" where
  "openBeforeReplay [] = True"
| "openBeforeReplay (w # ws) =
     (if w = HandlerOpen then True else w \<noteq> HandlerReplay \<and> openBeforeReplay ws)"

fun replayBeforeLive :: "writer list \<Rightarrow> bool" where
  "replayBeforeLive [] = True"
| "replayBeforeLive (w # ws) =
     ((w = Publisher \<longrightarrow> HandlerReplay \<notin> set ws) \<and> replayBeforeLive ws)"

section \<open>A concrete server\<close>

text \<open>
  A configuration, a server, an environment and requests to run the definitions on: three
  hours of attachment expiry, delays between ten seconds and three days, a clock at
  1700000000 seconds, a cache that holds one message of topic \<^verbatim>\<open>mytopic\<close>.
\<close>

definition requestOf :: "(string \<times> string) list \<Rightarrow> (string \<times> string) list \<Rightarrow> string \<Rightarrow> request" where
  "requestOf hs qs p =
     \<lparr>Header = (\<lambda>n. case map_of hs n of Some v \<Rightarrow> v | None \<Rightarrow> []),
      Query = (\<lambda>n. case map_of qs n of Some v \<Rightarrow> v | None \<Rightarrow> []),
      Path = p\<rparr>"

definition exampleConfig :: config where
  "exampleConfig =
     \<lparr>BaseURL = ''https://ntfy.example'', AttachmentCacheDir = ''/var/cache/ntfy'',
      AttachmentExpiryDuration = 10800000000000, AttachmentFileSizeLimit = 15728640,
      VisitorAttachmentTotalSizeLimit = 104857600, MinDelay = 10000000000,
      MaxDelay = 259200000000000, TotalTopicLimit = 5000,
      VisitorRequestLimitBurst = 1, VisitorRequestLimitReplenish = 172800000000000\<rparr>"

definition exampleServer :: server where
  "exampleServer =
     \<lparr>conf = exampleConfig, topics = fmempty, visitors = fmempty, firebase = True,
      mailer = True, fileCache = True, messages = 0\<rparr>"

definition cachedMessage :: message where
  "cachedMessage =
     \<lparr>ID = ''c1'', Time = 1699999000, Event = ''message'', Topic = ''mytopic'', Priority = 0,
      Tags = [''a'', ''b''], Click = [], Attachment = None, Title = [], Message = ''earlier''\<rparr>"

definition exampleEnv :: env where
  "exampleEnv =
     \<lparr>now = 1700000000000000000, emailAllowed = True, subscriptionAllowed = True,
      ParseFutureTime = (\<lambda>str t. if str = ''30m'' then Some (t + 1800000000000) else None),
      SplitNoEmpty = (\<lambda>str sep. case sep of
                                     c # _ \<Rightarrow> filter (\<lambda>p. p \<noteq> []) (Split str c)
                                   | [] \<Rightarrow> [str]),
      urlPathBase = (\<lambda>u. None),
      DetectContentType = (\<lambda>b n. (''text/plain'', ''.txt'')),
      attachmentsSize = Inr 0,
      fileWrite = (\<lambda>remaining. Inr 5),
      publishFails = (\<lambda>m. False), firebaseFails = (\<lambda>m. False),
      addMessageFails = (\<lambda>m. False), markPublishedFails = (\<lambda>m. False),
      ParseDuration = (\<lambda>str. if str = ''12h'' then Some 43200000000000 else None),
      cacheMessages = (\<lambda>t since scheduled. if t = ''mytopic'' then Inr [cachedMessage] else Inr []),
      messagesDue = Inr [],
      writeFails = (\<lambda>m. False)\<rparr>"

definition exampleVisitor :: visitor where
  "exampleVisitor = \<lparr>ip = ''198.51.100.7'', seen = 0\<rparr>"

definition publishedMessage :: "int \<Rightarrow> int \<Rightarrow> string \<Rightarrow> message" where
  "publishedMessage t p msg =
     \<lparr>ID = ''m1'', Time = t, Event = ''message'', Topic = ''mytopic'', Priority = p,
      Tags = [], Click = [], Attachment = None, Title = [], Message = msg\<rparr>"

definition urgentRequest :: request where
  "urgentRequest = requestOf [(''x-priority'', ''urgent'')] [] ''/mytopic''"




definition helloBody :: PeakedReadCloser where
  "helloBody = \<lparr>PeakedBytes = ''hello'', LimitReached = False\<rparr>"

definition filenameRequest :: request where
  "filenameRequest = requestOf [] [(''filename'', ''a.txt'')] ''/mytopic''"

definition delayRequest :: request where
  "delayRequest = requestOf [(''x-delay'', ''30m'')] [] ''/mytopic''"

definition namedMessage :: message where
  "namedMessage =
     (publishedMessage 1700000000 0 [])\<lparr>Attachment := Some (emptyAttachment\<lparr>Name := ''a.txt''\<rparr>)\<rparr>"

definition keepaliveMessage :: message where
  "keepaliveMessage = newKeepaliveMessage ''k1'' 1700000045 ''mytopic''"



definition pollRequest :: "string \<Rightarrow> request" where
  "pollRequest since = requestOf [] [(''poll'', ''1''), (''since'', since)] ''/mytopic/json''"







definition thirtyHours :: int where
  "thirtyHours = 30 * (60 * 60 * 1000000000)"

definition visitedServer :: server where
  "visitedServer = exampleServer\<lparr>visitors := fmupd ''198.51.100.7'' exampleVisitor fmempty\<rparr>"

text \<open>The log lines among the effects, to tell them from the calls.\<close>

definition isLogError :: "effect \<Rightarrow> bool" where
  "isLogError x = (case x of LogError _ \<Rightarrow> True | _ \<Rightarrow> False)"

definition dueMessage :: "string \<Rightarrow> message" where
  "dueMessage mid =
     \<lparr>ID = mid, Time = 1699999990, Event = ''message'', Topic = ''mytopic'', Priority = 0,
      Tags = [], Click = [], Attachment = None, Title = [], Message = ''scheduled''\<rparr>"

definition topicServer :: server where
  "topicServer = exampleServer\<lparr>topics := fmupd ''mytopic'' (newTopic ''mytopic'') fmempty\<rparr>"

definition dueEnv :: env where
  "dueEnv = exampleEnv\<lparr>messagesDue := Inr [dueMessage ''d1'', dueMessage ''d2''],
                        publishFails := (\<lambda>m. True), firebaseFails := (\<lambda>m. True)\<rparr>"

definition markFailsEnv :: env where
  "markFailsEnv = dueEnv\<lparr>markPublishedFails := (\<lambda>m. ID m = ''d1'')\<rparr>"

definition liveMessage :: message where
  "liveMessage = publishedMessage 1700000000 0 ''live''"

definition openMessage :: message where
  "openMessage = newOpenMessage ''o1'' 1700000000 ''mytopic''"

definition racedConnection :: connection where
  "racedConnection =
     \<lparr>phaseOf = Replaying, toRegister = [], registered = [''mytopic''], toReplay = [],
      written = [(Publisher, liveMessage), (HandlerOpen, openMessage), (HandlerReplay, cachedMessage)]\<rparr>"

text \<open>
  What holds of a connection in every state: before the open message is sent only
  publishers have written and nothing has been replayed; afterwards an open line is there;
  no replayed line stands before the first open line; the replayed lines and the messages
  still to replay make up the cached messages that pass the filters, in order; and every
  line of a publisher is for a registered topic.
\<close>

definition connInv ::
  "string \<Rightarrow> string \<Rightarrow> int list \<Rightarrow> string list \<Rightarrow> message list \<Rightarrow> connection \<Rightarrow> bool" where
  "connInv mf tf pf tgf cached c =
     ((phaseOf c = Registering \<or> phaseOf c = Opening \<longrightarrow>
         (\<forall>x \<in> set (written c). fst x = Publisher) \<and> toReplay c = cached) \<and>
      (phaseOf c = Replaying \<or> phaseOf c = Streaming \<longrightarrow>
         HandlerOpen \<in> set (map fst (written c))) \<and>
      openBeforeReplay (map fst (written c)) \<and>
      map snd (filter (\<lambda>x. fst x = HandlerReplay) (written c)) @
        filter (\<lambda>m. passesQueryFilter m mf tf pf tgf) (toReplay c) =
        filter (\<lambda>m. passesQueryFilter m mf tf pf tgf) cached \<and>
      (\<forall>x \<in> set (written c). fst x = Publisher \<longrightarrow> Topic (snd x) \<in> set (registered c)))"

section \<open>Properties of the publish pipeline\<close>

subsection \<open>Auxiliary facts\<close>

lemma parseDelay_Inr:
  "parseDelay s e cache email delayStr m = Inr m' \<Longrightarrow>
     Priority m' = Priority m \<and> Attachment m' = Attachment m \<and> Message m' = Message m \<and>
     Topic m' = Topic m \<and>
     (delayStr \<noteq> [] \<longrightarrow> cache \<and> email = []) \<and> (delayStr = [] \<longrightarrow> Time m' = Time m)"
  by (auto simp: parseDelay_def split: if_splits option.splits)

lemma attachParams_fields:
  "Priority (attachParams e filename attach m) = Priority m"
  "Time (attachParams e filename attach m) = Time m"
  "Topic (attachParams e filename attach m) = Topic m"
  by (auto simp: attachParams_def attachExternal_def setAttachment_def Let_def split: option.splits)

lemma attachParams_Attachment:
  assumes "Attachment m = None"
  shows "(Attachment (attachParams e filename attach m) \<noteq> None) = (attach \<noteq> [] \<or> filename \<noteq> [])"
    and "(attachmentURL (attachParams e filename attach m) \<noteq> []) = (attach \<noteq> [])"
    and "attach = [] \<Longrightarrow> (attachmentName (attachParams e filename attach m) \<noteq> []) = (filename \<noteq> [])"
  using assms
  by (auto simp: attachParams_def attachExternal_def setAttachment_def Let_def attachmentURL_def
      attachmentName_def emptyAttachment_def split: option.splits)

lemma messageParam_fields:
  "Priority (messageParam x m) = Priority m"
  "Time (messageParam x m) = Time m"
  "Topic (messageParam x m) = Topic m"
  "Attachment (messageParam x m) = Attachment m"
  by (simp_all add: messageParam_def)

lemma tagsParam_fields:
  "Priority (tagsParam e x m) = Priority m"
  "Time (tagsParam e x m) = Time m"
  "Topic (tagsParam e x m) = Topic m"
  "Attachment (tagsParam e x m) = Attachment m"
  "Message (tagsParam e x m) = Message m"
  by (simp_all add: tagsParam_def)

lemma parsePublishParams_Inr:
  assumes "parsePublishParams s e r m = Inr (c, f, em, m')"
  shows "\<exists>p. ParsePriority (readParam r [''x-priority'', ''priority'', ''prio'', ''p'']) = Inr p \<and>
           parseDelay s e c em (readParam r [''x-delay'', ''delay'', ''x-at'', ''at'', ''x-in'', ''in''])
             (tagsParam e (readParam r [''x-tags'', ''tags'', ''tag'', ''ta''])
               ((messageParam (readParam r [''x-message'', ''message'', ''m''])
                  (attachParams e (readParam r [''x-filename'', ''filename'', ''file'', ''f''])
                     (readParam r [''x-attach'', ''attach'', ''a''])
                     (m\<lparr>Title := readParam r [''x-title'', ''title'', ''t''],
                        Click := readParam r [''x-click'', ''click'']\<rparr>)))\<lparr>Priority := p\<rparr>)) = Inr m'"
    and "c = (readParam r [''x-cache'', ''cache''] \<noteq> ''no'')"
    and "f = (readParam r [''x-firebase'', ''firebase''] \<noteq> ''no'' \<and>
              readParam r [''x-unifiedpush'', ''unifiedpush'', ''up''] \<noteq> ''1'')"
    and "em = readParam r [''x-email'', ''x-e-mail'', ''email'', ''e-mail'', ''mail'', ''e'']"
  using assms unfolding parsePublishParams_def Let_def
  by (simp_all split: if_split_asm sum.split_asm)


lemma parsePublishParams_attachment:
  assumes "parsePublishParams s e r m = Inr (c, f, em, m')"
  shows "Attachment m' =
         Attachment (attachParams e (readParam r [''x-filename'', ''filename'', ''file'', ''f''])
                       (readParam r [''x-attach'', ''attach'', ''a''])
                       (m\<lparr>Title := readParam r [''x-title'', ''title'', ''t''],
                          Click := readParam r [''x-click'', ''click'']\<rparr>))"
  using parsePublishParams_Inr(1)[OF assms]
  by (auto dest!: parseDelay_Inr simp: tagsParam_fields messageParam_fields)

lemma parsePublishParams_topic:
  assumes "parsePublishParams s e r m = Inr (c, f, em, m')"
  shows "Topic m' = Topic m"
  using parsePublishParams_Inr(1)[OF assms]
  by (auto dest!: parseDelay_Inr simp: tagsParam_fields messageParam_fields attachParams_fields)

lemma parsePublishParams_delayed:
  assumes "parsePublishParams s e r m = Inr (c, f, em, m')" and "Time m' \<noteq> Time m"
  shows "c \<and> em = []"
  using parsePublishParams_Inr(1)[OF assms(1)] assms(2)
  by (auto dest!: parseDelay_Inr simp: tagsParam_fields messageParam_fields attachParams_fields)

lemma handleBodyAsMessage_fields:
  assumes "handleBodyAsMessage m body = Inr m'"
  shows "Priority m' = Priority m \<and> Time m' = Time m \<and> Topic m' = Topic m"
  using assms by (auto simp: handleBodyAsMessage_def Let_def split: if_splits)

lemma handleBodyAsAttachment_fields:
  assumes "handleBodyAsAttachment s e r v m body = Inr m'"
  shows "Priority m' = Priority m \<and> Time m' = Time m \<and> Topic m' = Topic m"
  using assms unfolding handleBodyAsAttachment_def Let_def
  by (simp split: if_split_asm sum.split_asm option.split_asm prod.split_asm) auto

lemma handlePublishBody_fields:
  assumes "handlePublishBody s e r v m body = Inr m'"
  shows "Priority m' = Priority m \<and> Time m' = Time m \<and> Topic m' = Topic m"
  using assms handleBodyAsMessage_fields handleBodyAsAttachment_fields
  by (cases "bodyDisposition m body") (simp_all add: handlePublishBody_def)

lemma handlePublish_Inr:
  assumes "handlePublish s e r v peaked mid = (Inr m, s', effs)"
  shows "\<exists>t s1 body c f em m1 m2.
           topicFromPath s (Path r) = (Inr t, s1) \<and> peaked = Inr body \<and>
           parsePublishParams s1 e r (newDefaultMessage mid (Unix (now e)) (topicID t) []) =
             Inr (c, f, em, m1) \<and>
           handlePublishBody s1 e r v m1 body = Inr m2 \<and>
           m = (if Message m2 = [] then m2\<lparr>Message := emptyMessageBody\<rparr> else m2) \<and>
           effs = publishEffects s1 v t c f em (Time m > Unix (now e)) m \<and>
           s' = s1\<lparr>messages := messages s1 + 1\<rparr> \<and>
           (Time m > Unix (now e) \<or> \<not> publishFails e m) \<and> \<not> (c \<and> addMessageFails e m)"
  using assms unfolding handlePublish_def Let_def
  by (simp split: prod.split_asm sum.split_asm if_split_asm) force+







lemma handlePublish_topic:
  assumes "handlePublish s e r v peaked mid = (Inr m, s', effs)"
  shows "\<exists>t s1. topicFromPath s (Path r) = (Inr t, s1) \<and> Topic m = topicID t"
proof -
  from handlePublish_Inr[OF assms] obtain t s1 body c f em m1 m2 where
    h: "topicFromPath s (Path r) = (Inr t, s1)"
       "parsePublishParams s1 e r (newDefaultMessage mid (Unix (now e)) (topicID t) []) = Inr (c, f, em, m1)"
       "handlePublishBody s1 e r v m1 body = Inr m2"
       "m = (if Message m2 = [] then m2\<lparr>Message := emptyMessageBody\<rparr> else m2)"
    by blast
  from parsePublishParams_topic[OF h(2)] handlePublishBody_fields[OF h(3)] h(4)
  have "Topic m = topicID t" by (simp add: newDefaultMessage_def newMessage_def)
  with h(1) show ?thesis by blast
qed

lemma topicsFromIDsLoop_fields:
  "topicsFromIDsLoop s ids found = (res, s') \<Longrightarrow>
     conf s' = conf s \<and> firebase s' = firebase s \<and> mailer s' = mailer s \<and>
     fileCache s' = fileCache s \<and> visitors s' = visitors s \<and> messages s' = messages s"
proof (induction ids arbitrary: s found)
  case Nil
  then show ?case by simp
next
  case (Cons tid ids)
  show ?case
  proof (cases "InStringList disallowedTopics tid")
    case True
    with Cons.prems show ?thesis by simp
  next
    case False
    show ?thesis
    proof (cases "fmlookup (topics s) tid")
      case (Some t)
      with False Cons.prems Cons.IH[of s "found @ [t]"] show ?thesis by simp
    next
      case None
      show ?thesis
      proof (cases "int (fcard (fmdom (topics s))) \<ge> TotalTopicLimit (conf s)")
        case True
        with None False Cons.prems show ?thesis by simp
      next
        case lim: False
        with None False Cons.prems
          Cons.IH[of "s\<lparr>topics := fmupd tid (newTopic tid) (topics s)\<rparr>" "found @ [newTopic tid]"]
        show ?thesis by simp
      qed
    qed
  qed
qed

lemma topicFromPath_fields:
  assumes "topicFromPath s path = (res, s')"
  shows "conf s' = conf s \<and> firebase s' = firebase s \<and> mailer s' = mailer s \<and>
     fileCache s' = fileCache s \<and> visitors s' = visitors s \<and> messages s' = messages s"
proof (cases "length (Split path CHR ''/'') < 2")
  case True
  with assms show ?thesis by (simp add: topicFromPath_def Let_def)
next
  case False
  obtain r1 s1 where l: "topicsFromIDsLoop s [Split path CHR ''/'' ! 1] [] = (r1, s1)"
    by (cases "topicsFromIDsLoop s [Split path CHR ''/'' ! 1] []") auto
  with False assms have "s' = s1"
    by (auto simp: topicFromPath_def topicsFromIDs_def Let_def split: sum.splits list.splits)
  with topicsFromIDsLoop_fields[OF l] show ?thesis by simp
qed




subsection \<open>Priorities\<close>





subsection \<open>The disposition of the body\<close>

text \<open>
  Claim C1. For every publish request whose parameters parse, the body is disposed of by
  these rules, in this order: when the attach parameter is there, the body is the message
  text; else when the filename parameter is there, the body is the attachment; else when
  the peeked bytes are valid UTF-8 and the reader has not recorded that the body went
  beyond the message limit, the body is the message text; else the body is the attachment.
  \<^verbatim>\<open>handlePublishBody\<close> runs the handler so chosen.
\<close>

theorem body_disposition:
  assumes "parsePublishParams s e r (newDefaultMessage mid t topic msg) = Inr (c, f, em, m)"
  shows "bodyDisposition m body =
           (if readParam r [''x-attach'', ''attach'', ''a''] \<noteq> [] then BodyAsMessage
            else if readParam r [''x-filename'', ''filename'', ''file'', ''f''] \<noteq> [] then BodyAsAttachment
            else if utf8Valid (PeakedBytes body) \<and> \<not> LimitReached body then BodyAsMessage
            else BodyAsAttachment) \<and>
         handlePublishBody s e r v m body =
           (if readParam r [''x-attach'', ''attach'', ''a''] \<noteq> [] then handleBodyAsMessage m body
            else if readParam r [''x-filename'', ''filename'', ''file'', ''f''] \<noteq> [] then
              handleBodyAsAttachment s e r v m body
            else if utf8Valid (PeakedBytes body) \<and> \<not> LimitReached body then handleBodyAsMessage m body
            else handleBodyAsAttachment s e r v m body)"
proof -
  let ?attach = "readParam r [''x-attach'', ''attach'', ''a'']"
  let ?filename = "readParam r [''x-filename'', ''filename'', ''file'', ''f'']"
  let ?m1 = "(newDefaultMessage mid t topic msg)\<lparr>Title := readParam r [''x-title'', ''title'', ''t''],
                          Click := readParam r [''x-click'', ''click'']\<rparr>"
  have none: "Attachment ?m1 = None" by (simp add: newDefaultMessage_def newMessage_def)
  have att: "Attachment m = Attachment (attachParams e ?filename ?attach ?m1)"
    using parsePublishParams_attachment[OF assms] .
  have url: "(attachmentURL m \<noteq> []) = (?attach \<noteq> [])"
    using attachParams_Attachment(2)[OF none, of e ?filename ?attach] att
    by (simp add: attachmentURL_def)
  have some: "(Attachment m \<noteq> None) = (?attach \<noteq> [] \<or> ?filename \<noteq> [])"
    using attachParams_Attachment(1)[OF none, of e ?filename ?attach] att by simp
  have name: "?attach = [] \<Longrightarrow> (attachmentName m \<noteq> []) = (?filename \<noteq> [])"
    using attachParams_Attachment(3)[OF none, of ?attach e ?filename] att
    by (simp add: attachmentName_def)
  have d: "bodyDisposition m body =
           (if ?attach \<noteq> [] then BodyAsMessage
            else if ?filename \<noteq> [] then BodyAsAttachment
            else if utf8Valid (PeakedBytes body) \<and> \<not> LimitReached body then BodyAsMessage
            else BodyAsAttachment)"
    using url some name by (auto simp: bodyDisposition_def)
  show ?thesis
    by (simp only: d handlePublishBody_def) simp
qed

theorem body_disposition_witness:
  "parsePublishParams exampleServer exampleEnv filenameRequest
     (newDefaultMessage ''m1'' 1700000000 ''mytopic'' []) = Inr (True, True, [], namedMessage) \<and>
   bodyDisposition namedMessage helloBody = BodyAsAttachment"
proof -
  have h: "parsePublishParams exampleServer exampleEnv filenameRequest
     (newDefaultMessage ''m1'' 1700000000 ''mytopic'' []) = Inr (True, True, [], namedMessage)"
    by code_simp
  have a: "readParam filenameRequest [''x-attach'', ''attach'', ''a''] = []" by code_simp
  have b: "readParam filenameRequest [''x-filename'', ''filename'', ''file'', ''f''] \<noteq> []" by code_simp
  from body_disposition[OF h, of helloBody exampleVisitor] a b
  have "bodyDisposition namedMessage helloBody = BodyAsAttachment" by simp
  with h show ?thesis by blast
qed

subsection \<open>Delayed and live publishes\<close>

lemma attachParams_firebaseFails:
  "attachParams (e\<lparr>firebaseFails := g\<rparr>) filename attach m = attachParams e filename attach m"
  by (simp add: attachParams_def attachExternal_def Let_def cong: if_cong option.case_cong)

lemma parseDelay_firebaseFails:
  "parseDelay s (e\<lparr>firebaseFails := g\<rparr>) c em d m = parseDelay s e c em d m"
  by (simp add: parseDelay_def cong: if_cong option.case_cong)

lemma parsePublishParams_firebaseFails:
  "parsePublishParams s (e\<lparr>firebaseFails := g\<rparr>) r m = parsePublishParams s e r m"
  by (simp add: parsePublishParams_def attachParams_firebaseFails parseDelay_firebaseFails tagsParam_def
      Let_def cong: if_cong sum.case_cong)

lemma handlePublishBody_firebaseFails:
  "handlePublishBody s (e\<lparr>firebaseFails := g\<rparr>) r v m body = handlePublishBody s e r v m body"
  by (simp add: handlePublishBody_def handleBodyAsAttachment_def Let_def
      cong: if_cong sum.case_cong option.case_cong disposition.case_cong prod.case_cong)

lemma handlePublish_firebaseFails:
  "handlePublish s (e\<lparr>firebaseFails := g\<rparr>) r v peaked mid = handlePublish s e r v peaked mid"
  by (simp add: handlePublish_def parsePublishParams_firebaseFails handlePublishBody_firebaseFails
      Let_def cong: if_cong sum.case_cong prod.case_cong)

text \<open>
  Claim C2. A publish that succeeds and whose message time is strictly after now (which
  can only come from a delay parameter) does exactly one thing: it adds the message to the
  cache; there is no fan-out on the topic and no task for the push hook or the mailer. A
  publish that succeeds and is not delayed fans out on the topic, then spawns the push task
  when the hook is configured and not opted out of, spawns the mail task when the mailer
  is configured and an address was given, and adds the message to the cache when caching
  was not opted out of. The tasks are spawned, not awaited: whether the push hook fails
  changes nothing in what the publish returns or does.
\<close>

theorem delayed_and_live_publish:
  assumes "handlePublish s e r v peaked mid = (Inr m, s', effs)"
  shows "(Time m > Unix (now e) \<longrightarrow>
            effs = [CacheAddMessage m] \<and>
            readParam r [''x-delay'', ''delay'', ''x-at'', ''at'', ''x-in'', ''in''] \<noteq> []) \<and>
         (\<not> Time m > Unix (now e) \<longrightarrow>
            effs =
              [TopicPublish (Topic m) m] @
              (if firebase s \<and> readParam r [''x-firebase'', ''firebase''] \<noteq> ''no'' \<and>
                  readParam r [''x-unifiedpush'', ''unifiedpush'', ''up''] \<noteq> ''1''
               then [SpawnFirebase m] else []) @
              (if mailer s \<and>
                  readParam r [''x-email'', ''x-e-mail'', ''email'', ''e-mail'', ''mail'', ''e''] \<noteq> []
               then [SpawnMail (ip v)
                       (readParam r [''x-email'', ''x-e-mail'', ''email'', ''e-mail'', ''mail'', ''e'']) m]
               else []) @
              (if readParam r [''x-cache'', ''cache''] \<noteq> ''no'' then [CacheAddMessage m] else [])) \<and>
         handlePublish s (e\<lparr>firebaseFails := g\<rparr>) r v peaked mid = handlePublish s e r v peaked mid"
proof -
  from handlePublish_Inr[OF assms] obtain t s1 body c f em m1 m2 where
    tp: "topicFromPath s (Path r) = (Inr t, s1)"
    and pp: "parsePublishParams s1 e r (newDefaultMessage mid (Unix (now e)) (topicID t) []) = Inr (c, f, em, m1)"
    and pb: "handlePublishBody s1 e r v m1 body = Inr m2"
    and m: "m = (if Message m2 = [] then m2\<lparr>Message := emptyMessageBody\<rparr> else m2)"
    and effs: "effs = publishEffects s1 v t c f em (Time m > Unix (now e)) m"
    by blast
  from topicFromPath_fields[OF tp] have s1: "firebase s1 = firebase s" "mailer s1 = mailer s" by simp_all
  from handlePublishBody_fields[OF pb] m have tm: "Time m = Time m1" "Topic m = Topic m1" by auto
  from parsePublishParams_topic[OF pp] tm have topic: "Topic m = topicID t"
    by (simp add: newDefaultMessage_def newMessage_def)
  note flags = parsePublishParams_Inr(2,3,4)[OF pp]
  have delayed: "effs = [CacheAddMessage m] \<and>
            readParam r [''x-delay'', ''delay'', ''x-at'', ''at'', ''x-in'', ''in''] \<noteq> []"
    if d: "Time m > Unix (now e)"
  proof -
    from d tm have ne: "Time m1 \<noteq> Time (newDefaultMessage mid (Unix (now e)) (topicID t) [])"
      by (simp add: newDefaultMessage_def newMessage_def)
    from parsePublishParams_delayed[OF pp ne] have c by simp
    with effs d have e1: "effs = [CacheAddMessage m]" by (simp add: publishEffects_def)
    from parsePublishParams_Inr(1)[OF pp] ne
    have "readParam r [''x-delay'', ''delay'', ''x-at'', ''at'', ''x-in'', ''in''] \<noteq> []"
      by (auto dest!: parseDelay_Inr simp: tagsParam_fields messageParam_fields attachParams_fields)
    with e1 show ?thesis by simp
  qed
  have live: "effs =
              [TopicPublish (Topic m) m] @
              (if firebase s \<and> readParam r [''x-firebase'', ''firebase''] \<noteq> ''no'' \<and>
                  readParam r [''x-unifiedpush'', ''unifiedpush'', ''up''] \<noteq> ''1''
               then [SpawnFirebase m] else []) @
              (if mailer s \<and>
                  readParam r [''x-email'', ''x-e-mail'', ''email'', ''e-mail'', ''mail'', ''e''] \<noteq> []
               then [SpawnMail (ip v)
                       (readParam r [''x-email'', ''x-e-mail'', ''email'', ''e-mail'', ''mail'', ''e'']) m]
               else []) @
              (if readParam r [''x-cache'', ''cache''] \<noteq> ''no'' then [CacheAddMessage m] else [])"
    if d: "\<not> Time m > Unix (now e)"
    using effs d s1 topic flags by (simp add: publishEffects_def)
  from delayed live handlePublish_firebaseFails[where s = s and e = e and g = g] show ?thesis by blast
qed

theorem delayed_and_live_publish_witness:
  "fst (handlePublish exampleServer exampleEnv delayRequest exampleVisitor (Inr helloBody) ''m1'') =
     Inr (publishedMessage 1700001800 0 ''hello'') \<and>
   Time (publishedMessage 1700001800 0 ''hello'') > Unix (now exampleEnv) \<and>
   snd (snd (handlePublish exampleServer exampleEnv delayRequest exampleVisitor (Inr helloBody) ''m1'')) =
     [CacheAddMessage (publishedMessage 1700001800 0 ''hello'')] \<and>
   fst (handlePublish exampleServer exampleEnv urgentRequest exampleVisitor (Inr helloBody) ''m1'') =
     Inr (publishedMessage 1700000000 5 ''hello'') \<and>
   \<not> Time (publishedMessage 1700000000 5 ''hello'') > Unix (now exampleEnv) \<and>
   snd (snd (handlePublish exampleServer exampleEnv urgentRequest exampleVisitor (Inr helloBody) ''m1'')) =
     [TopicPublish ''mytopic'' (publishedMessage 1700000000 5 ''hello''),
      SpawnFirebase (publishedMessage 1700000000 5 ''hello''),
      CacheAddMessage (publishedMessage 1700000000 5 ''hello'')]"
proof -
  let ?d = "handlePublish exampleServer exampleEnv delayRequest exampleVisitor (Inr helloBody) ''m1''"
  let ?u = "handlePublish exampleServer exampleEnv urgentRequest exampleVisitor (Inr helloBody) ''m1''"
  have d1: "fst ?d = Inr (publishedMessage 1700001800 0 ''hello'')" by code_simp
  then have d2: "?d = (Inr (publishedMessage 1700001800 0 ''hello''), fst (snd ?d), snd (snd ?d))"
    by (metis prod.collapse)
  have d3: "Time (publishedMessage 1700001800 0 ''hello'') > Unix (now exampleEnv)" by code_simp
  have u1: "fst ?u = Inr (publishedMessage 1700000000 5 ''hello'')" by code_simp
  then have u2: "?u = (Inr (publishedMessage 1700000000 5 ''hello''), fst (snd ?u), snd (snd ?u))"
    by (metis prod.collapse)
  have u3: "\<not> Time (publishedMessage 1700000000 5 ''hello'') > Unix (now exampleEnv)" by code_simp
  have u4: "firebase exampleServer" "mailer exampleServer"
    "readParam urgentRequest [''x-firebase'', ''firebase''] = []"
    "readParam urgentRequest [''x-unifiedpush'', ''unifiedpush'', ''up''] = []"
    "readParam urgentRequest [''x-email'', ''x-e-mail'', ''email'', ''e-mail'', ''mail'', ''e''] = []"
    "readParam urgentRequest [''x-cache'', ''cache''] = []"
    "Topic (publishedMessage 1700000000 5 ''hello'') = ''mytopic''"
    by code_simp+
  from delayed_and_live_publish[OF d2] d3
  have A: "snd (snd ?d) = [CacheAddMessage (publishedMessage 1700001800 0 ''hello'')]" by blast
  from delayed_and_live_publish[OF u2] u3 u4
  have B: "snd (snd ?u) = [TopicPublish ''mytopic'' (publishedMessage 1700000000 5 ''hello''),
      SpawnFirebase (publishedMessage 1700000000 5 ''hello''),
      CacheAddMessage (publishedMessage 1700000000 5 ''hello'')]" by simp
  from d1 d3 A u1 u3 B show ?thesis by blast
qed

section \<open>Properties of the subscribe pipeline\<close>

subsection \<open>Query filters\<close>

lemma InStringList_set: "InStringList haystack needle = (needle \<in> set haystack)"
  by (induction haystack) auto

lemma InIntList_set: "InIntList haystack needle = (needle \<in> set haystack)"
  by (induction haystack) auto

lemma InStringListAll_set: "InStringListAll haystack needles = (set needles \<subseteq> set haystack)"
  by (auto simp: InStringListAll_def list_all_iff InStringList_set)

text \<open>
  Claim C6. The filters apply to message events only: an event that is not a message
  passes whatever the filters are, so the open and the keepalive message always pass. A
  message of priority 0 is filtered as one of priority 3. A message event that passes a
  non-empty tag filter has every filter tag among its tags; in full, a message event passes
  exactly when each filter is empty or satisfied.
\<close>

theorem query_filter:
  "(Event msg \<noteq> messageEvent \<longrightarrow> passesQueryFilter msg mf tf pf tgf) \<and>
   passesQueryFilter (newOpenMessage mid t topic) mf tf pf tgf \<and>
   passesQueryFilter (newKeepaliveMessage mid t topic) mf tf pf tgf \<and>
   passesQueryFilter (msg\<lparr>Priority := 0\<rparr>) mf tf pf tgf =
     passesQueryFilter (msg\<lparr>Priority := 3\<rparr>) mf tf pf tgf \<and>
   (Event msg = messageEvent \<and> tgf \<noteq> [] \<and> passesQueryFilter msg mf tf pf tgf \<longrightarrow>
      set tgf \<subseteq> set (Tags msg)) \<and>
   (Event msg = messageEvent \<longrightarrow>
      passesQueryFilter msg mf tf pf tgf =
        ((mf = [] \<or> Message msg = mf) \<and> (tf = [] \<or> Title msg = tf) \<and>
         (pf = [] \<or> (if Priority msg = 0 then 3 else Priority msg) \<in> set pf) \<and>
         (tgf = [] \<or> set tgf \<subseteq> set (Tags msg))))"
proof -
  have a: "Event msg \<noteq> messageEvent \<longrightarrow> passesQueryFilter msg mf tf pf tgf"
    by (simp add: passesQueryFilter_def)
  have b: "passesQueryFilter (newOpenMessage mid t topic) mf tf pf tgf"
    by (simp add: passesQueryFilter_def newOpenMessage_def newMessage_def openEvent_def messageEvent_def)
  have c: "passesQueryFilter (newKeepaliveMessage mid t topic) mf tf pf tgf"
    by (simp add: passesQueryFilter_def newKeepaliveMessage_def newMessage_def keepaliveEvent_def
        messageEvent_def)
  have d: "passesQueryFilter (msg\<lparr>Priority := 0\<rparr>) mf tf pf tgf =
     passesQueryFilter (msg\<lparr>Priority := 3\<rparr>) mf tf pf tgf"
    by (simp add: passesQueryFilter_def Let_def)
  have f: "Event msg = messageEvent \<longrightarrow>
      passesQueryFilter msg mf tf pf tgf =
        ((mf = [] \<or> Message msg = mf) \<and> (tf = [] \<or> Title msg = tf) \<and>
         (pf = [] \<or> (if Priority msg = 0 then 3 else Priority msg) \<in> set pf) \<and>
         (tgf = [] \<or> set tgf \<subseteq> set (Tags msg)))"
    by (auto simp: passesQueryFilter_def Let_def InIntList_set InStringListAll_set)
  from f have e: "Event msg = messageEvent \<and> tgf \<noteq> [] \<and> passesQueryFilter msg mf tf pf tgf \<longrightarrow>
      set tgf \<subseteq> set (Tags msg)" by blast
  show ?thesis
    using a b c d e f by (intro conjI)
qed

theorem query_filter_witness:
  "Event keepaliveMessage \<noteq> messageEvent \<and>
   passesQueryFilter keepaliveMessage ''other'' [] [5] [''a'', ''c''] \<and>
   Event cachedMessage = messageEvent \<and> [''b'', ''a''] \<noteq> ([] :: string list) \<and>
   passesQueryFilter cachedMessage [] [] [3] [''b'', ''a''] \<and>
   set [''b'', ''a''] \<subseteq> set (Tags cachedMessage) \<and>
   \<not> passesQueryFilter cachedMessage [] [] [3] [''a'', ''c'']"
proof -
  have h1: "Event keepaliveMessage \<noteq> messageEvent" by code_simp
  have h2: "Event cachedMessage = messageEvent" by code_simp
  have h3: "passesQueryFilter cachedMessage [] [] [3] [''b'', ''a'']" by code_simp
  have h4: "\<not> set [''a'', ''c''] \<subseteq> set (Tags cachedMessage)" by code_simp
  note k = query_filter[of keepaliveMessage "''other''" "[]" "[5]" "[''a'', ''c'']" "[]" 0 "[]"]
  note p = query_filter[of cachedMessage "[]" "[]" "[3]" "[''b'', ''a'']" "[]" 0 "[]"]
  note q = query_filter[of cachedMessage "[]" "[]" "[3]" "[''a'', ''c'']" "[]" 0 "[]"]
  have A: "passesQueryFilter keepaliveMessage ''other'' [] [5] [''a'', ''c'']"
    using k[THEN conjunct1] h1 by (rule mp)
  have ne: "[''b'', ''a''] \<noteq> ([] :: string list)" by simp
  have B: "set [''b'', ''a''] \<subseteq> set (Tags cachedMessage)"
    using p[THEN conjunct2, THEN conjunct2, THEN conjunct2, THEN conjunct2, THEN conjunct1]
      conjI[OF h2 conjI[OF ne h3]] by (rule mp)
  have E: "passesQueryFilter cachedMessage [] [] [3] [''a'', ''c''] =
       (([] = ([]::string) \<or> Message cachedMessage = []) \<and> ([] = ([]::string) \<or> Title cachedMessage = []) \<and>
         ([3] = ([]::int list) \<or> (if Priority cachedMessage = 0 then 3 else Priority cachedMessage) \<in> set [3]) \<and>
         ([''a'', ''c''] = ([]::string list) \<or> set [''a'', ''c''] \<subseteq> set (Tags cachedMessage)))"
    using q[THEN conjunct2, THEN conjunct2, THEN conjunct2, THEN conjunct2, THEN conjunct2] h2 by (rule mp)
  have C: "\<not> passesQueryFilter cachedMessage [] [] [3] [''a'', ''c'']"
    unfolding E using h4 by simp
  show ?thesis using h1 A h2 h3 B C ne by (intro conjI)
qed

subsection \<open>The cursor of a replay\<close>





lemma sendOldMessages_none:
  "sendOldMessages e ts sinceNoMessages scheduled sb = (None, [])"
  by (simp add: sendOldMessages_def IsNone_def)

lemma sub_open:
  "sub e mf tf pf tgf (newOpenMessage mid t topic) =
     (if writeFails e (newOpenMessage mid t topic) then (Some (errOther ''write''), [])
      else (None, [newOpenMessage mid t topic]))"
  by (simp add: sub_def passesQueryFilter_def newOpenMessage_def newMessage_def openEvent_def
      messageEvent_def)

lemma ParseInt_0_1: "ParseInt ''0'' = Some 0" "ParseInt ''1'' = Some 1"
  by code_simp+



text \<open>
  Claim C10. The two sentinels are the instants of unix seconds 0 and 1, so the parser
  cannot tell \<^verbatim>\<open>since=0\<close> from \<^verbatim>\<open>since=all\<close>, nor \<^verbatim>\<open>since=1\<close> from no cursor on a
  stream: \<^verbatim>\<open>since=0\<close> gives the all-messages sentinel, \<^verbatim>\<open>since=1\<close> the no-messages
  sentinel, and with \<^verbatim>\<open>since=1\<close> the handler writes no cached message at all (nothing on a
  poll, at most the open message on a stream), whatever the cache holds with a time of
  second 1 or later.
\<close>

theorem since_sentinels:
  "(readParam r [''x-since'', ''since'', ''si''] = ''0'' \<longrightarrow>
      parseSince e r poll = Inr sinceAllMessages \<and> IsAll sinceAllMessages) \<and>
   (readParam r [''x-since'', ''since'', ''si''] = ''1'' \<longrightarrow>
      parseSince e r poll = Inr sinceNoMessages \<and> IsNone sinceNoMessages \<and>
      sendOldMessages e ts sinceNoMessages scheduled sb = (None, [])) \<and>
   (readParam r [''x-since'', ''since'', ''si''] = ''1'' \<and>
    handleSubscribe s e r format mid = (res, s', w) \<longrightarrow>
      w = [] \<or>
      w = [newOpenMessage mid (Unix (now e)) (TrimSuffix (drop 1 (Path r)) (''/'' @ format))])"
proof -
  have a: "readParam r [''x-since'', ''since'', ''si''] = ''0'' \<longrightarrow>
      parseSince e r poll = Inr sinceAllMessages \<and> IsAll sinceAllMessages"
    by (simp add: parseSince_def ParseInt_0_1 sinceAllMessages_def IsAll_def)
  have one: "parseSince e r p = Inr sinceNoMessages"
    if "readParam r [''x-since'', ''since'', ''si''] = ''1''" for p
    using that by (simp add: parseSince_def ParseInt_0_1 sinceNoMessages_def)
  have b: "readParam r [''x-since'', ''since'', ''si''] = ''1'' \<longrightarrow>
      parseSince e r poll = Inr sinceNoMessages \<and> IsNone sinceNoMessages \<and>
      sendOldMessages e ts sinceNoMessages scheduled sb = (None, [])"
    using one by (simp add: IsNone_def sendOldMessages_none)
  have c: "readParam r [''x-since'', ''since'', ''si''] = ''1'' \<and>
    handleSubscribe s e r format mid = (res, s', w) \<longrightarrow>
      w = [] \<or>
      w = [newOpenMessage mid (Unix (now e)) (TrimSuffix (drop 1 (Path r)) (''/'' @ format))]"
  proof (intro impI, elim conjE)
    assume si: "readParam r [''x-since'', ''since'', ''si''] = ''1''"
      and h: "handleSubscribe s e r format mid = (res, s', w)"
    from h one[OF si]
    show "w = [] \<or>
      w = [newOpenMessage mid (Unix (now e)) (TrimSuffix (drop 1 (Path r)) (''/'' @ format))]"
      unfolding handleSubscribe_def Let_def
      by (auto simp: sendOldMessages_none sub_open split: if_split_asm prod.split_asm sum.split_asm)
  qed
  show ?thesis using a b c by (intro conjI)
qed

theorem since_sentinels_witness:
  "readParam (pollRequest ''0'') [''x-since'', ''since'', ''si''] = ''0'' \<and>
   parseSince exampleEnv (pollRequest ''0'') True = Inr sinceAllMessages \<and>
   readParam (pollRequest ''1'') [''x-since'', ''since'', ''si''] = ''1'' \<and>
   parseSince exampleEnv (pollRequest ''1'') True = Inr sinceNoMessages \<and>
   cacheMessages exampleEnv ''mytopic'' (UnixTime 1) False = Inr [cachedMessage] \<and>
   Time cachedMessage \<ge> 1 \<and>
   handleSubscribe exampleServer exampleEnv (pollRequest ''1'') ''json'' ''o1'' =
     (None, snd (topicsFromIDs exampleServer [''mytopic'']), [])"
proof -
  let ?h = "handleSubscribe exampleServer exampleEnv (pollRequest ''1'') ''json'' ''o1''"
  have z1: "readParam (pollRequest ''0'') [''x-since'', ''since'', ''si''] = ''0''" by code_simp
  have o1: "readParam (pollRequest ''1'') [''x-since'', ''since'', ''si''] = ''1''" by code_simp
  have c1: "cacheMessages exampleEnv ''mytopic'' (UnixTime 1) False = Inr [cachedMessage]"
    by (simp add: exampleEnv_def)
  have c2: "Time cachedMessage \<ge> 1" by (simp add: cachedMessage_def)
  have h1: "fst ?h = None" "fst (snd ?h) = snd (topicsFromIDs exampleServer [''mytopic''])"
    "snd (snd ?h) \<noteq> [newOpenMessage ''o1'' (Unix (now exampleEnv))
        (TrimSuffix (drop 1 (Path (pollRequest ''1''))) (''/'' @ ''json''))]"
    by code_simp+
  have h2: "?h = (fst ?h, fst (snd ?h), snd (snd ?h))" by simp
  note Z = since_sentinels[where r = "pollRequest ''0''" and e = exampleEnv and poll = True]
  note O = since_sentinels[where r = "pollRequest ''1''" and e = exampleEnv and poll = True
      and s = exampleServer and format = "''json''" and mid = "''o1''" and res = "fst ?h"
      and s' = "fst (snd ?h)" and w = "snd (snd ?h)"]
  have r1: "parseSince exampleEnv (pollRequest ''0'') True = Inr sinceAllMessages"
    using Z[THEN conjunct1] z1 by simp
  have r2: "parseSince exampleEnv (pollRequest ''1'') True = Inr sinceNoMessages"
    using O[THEN conjunct2, THEN conjunct1] o1 by simp
  have "snd (snd ?h) = []"
    using O[THEN conjunct2, THEN conjunct2] o1 h2 h1(3) by blast
  with h1 have r3: "?h = (None, snd (topicsFromIDs exampleServer [''mytopic'']), [])"
    by (metis prod.collapse)
  show ?thesis using z1 r1 o1 r2 c1 c2 r3 by (intro conjI)
qed

section \<open>Properties of the topic registry\<close>
















section \<open>Properties of the visitor registry\<close>

lemma Stale_iff: "Stale current v = (current - seen v > 86400000000000)"
  by (auto simp: Stale_def Since_def visitorExpungeAfter_def oneDay_def)

text \<open>
  Claim C8, as stated, fails: with a request limiter that refills one token in 48 hours
  and a burst of one, a visitor last seen 30 hours ago is reported stale, although it has
  not been inactive for longer than one refill interval, nor for longer than the larger of
  that interval and any minimum.
\<close>

theorem stale_threshold_counterexample:
  "Stale thirtyHours exampleVisitor \<and>
   \<not> Since thirtyHours (seen exampleVisitor) > specRefillInterval exampleConfig \<and>
   \<not> Since thirtyHours (seen exampleVisitor) > specStaleThreshold exampleConfig 0"
  by code_simp

text \<open>
  Claim C8, amended. The staleness threshold is the constant \<^verbatim>\<open>visitorExpungeAfter\<close>, one
  day, whatever the limiters are: a visitor is stale exactly when it was last seen more
  than one day ago, and the manager loop removes exactly the stale visitors from the
  registry.
\<close>

theorem stale_threshold:
  "visitorExpungeAfter = 86400000000000 \<and>
   Stale current v = (current - seen v > visitorExpungeAfter) \<and>
   fmlookup (visitors (expireVisitors current s)) addr =
     (case fmlookup (visitors s) addr of
        Some v' \<Rightarrow> if Stale current v' then None else Some v'
      | None \<Rightarrow> None) \<and>
   (fmlookup (visitors s) addr = Some v \<and> current - seen v > visitorExpungeAfter \<longrightarrow>
      fmlookup (visitors (expireVisitors current s)) addr = None)"
proof -
  have a: "visitorExpungeAfter = 86400000000000" by (simp add: visitorExpungeAfter_def oneDay_def)
  have b: "Stale current v = (current - seen v > visitorExpungeAfter)"
    by (simp add: Stale_iff a)
  have c: "fmlookup (visitors (expireVisitors current s)) addr =
     (case fmlookup (visitors s) addr of
        Some v' \<Rightarrow> if Stale current v' then None else Some v'
      | None \<Rightarrow> None)"
    by (simp add: expireVisitors_def split: option.splits)
  have d: "fmlookup (visitors s) addr = Some v \<and> current - seen v > visitorExpungeAfter \<longrightarrow>
      fmlookup (visitors (expireVisitors current s)) addr = None"
    using b c by simp
  show ?thesis using a b c d by (intro conjI)
qed

theorem stale_threshold_witness:
  "fmlookup (visitors visitedServer) ''198.51.100.7'' = Some exampleVisitor \<and>
   thirtyHours - seen exampleVisitor > visitorExpungeAfter \<and>
   fmlookup (visitors (expireVisitors thirtyHours visitedServer)) ''198.51.100.7'' = None \<and>
   VisitorRequestLimitBurst (conf visitedServer) * VisitorRequestLimitReplenish (conf visitedServer) =
     172800000000000"
proof -
  have h1: "fmlookup (visitors visitedServer) ''198.51.100.7'' = Some exampleVisitor" by code_simp
  have h2: "thirtyHours - seen exampleVisitor > visitorExpungeAfter" by code_simp
  have h3: "VisitorRequestLimitBurst (conf visitedServer) * VisitorRequestLimitReplenish (conf visitedServer) =
     172800000000000" by code_simp
  have r: "fmlookup (visitors (expireVisitors thirtyHours visitedServer)) ''198.51.100.7'' = None"
    using stale_threshold[of thirtyHours exampleVisitor visitedServer "''198.51.100.7''",
        THEN conjunct2, THEN conjunct2, THEN conjunct2] h1 h2 by blast
  show ?thesis using h1 h2 r h3 by (intro conjI)
qed

section \<open>Properties of the scheduled-delivery loop\<close>

lemma deliverDelayed_calls:
  "filter (\<lambda>x. \<not> isLogError x) (deliverDelayed s e m) =
     (if fmlookup (topics s) (Topic m) \<noteq> None then [TopicPublish (Topic m) m] else []) @
     (if firebase s then [CallFirebase m] else []) @ [CacheMarkPublished m]"
  by (auto simp: deliverDelayed_def isLogError_def split: option.splits)

lemma sendDelayedLoop_all:
  "\<forall>m \<in> set ms. \<not> markPublishedFails e m \<Longrightarrow>
     sendDelayedLoop s e ms = (None, concat (map (deliverDelayed s e) ms))"
  by (induction ms) auto

lemma sendDelayedLoop_prefix:
  "sendDelayedLoop s e ms =
     (if \<forall>m \<in> set ms. \<not> markPublishedFails e m then None else Some (errOther ''mark published''),
      concat (map (deliverDelayed s e)
        (takeWhile (\<lambda>m. \<not> markPublishedFails e m) ms @
         take 1 (dropWhile (\<lambda>m. \<not> markPublishedFails e m) ms))))"
  by (induction ms) auto

lemma deliverDelayed_exact:
  "deliverDelayed s e m =
     (if fmlookup (topics s) (Topic m) \<noteq> None then
        TopicPublish (Topic m) m #
        (if publishFails e m then [LogError ''unable to publish message''] else [])
      else []) @
     (if firebase s then
        CallFirebase m #
        (if firebaseFails e m then [LogError ''unable to publish to Firebase''] else [])
      else []) @
     [CacheMarkPublished m]"
  by (simp add: deliverDelayed_def split: option.splits)

lemma deliverDelayed_in_batch:
  assumes "\<forall>m \<in> set ms. \<not> markPublishedFails e m" and "m \<in> set ms"
  shows "set (deliverDelayed s e m) \<subseteq> set (snd (sendDelayedLoop s e ms))"
  using assms sendDelayedLoop_all[of ms e s] by auto

text \<open>
  Claim C3, as stated, fails: when \<^verbatim>\<open>MarkPublished\<close> returns an error for the first of two
  due messages, \<^verbatim>\<open>sendDelayedMessages\<close> returns that error at once, and the second message
  is neither published, nor pushed, nor marked in that run.
\<close>

theorem delayed_batch_counterexample:
  "messagesDue markFailsEnv = Inr [dueMessage ''d1'', dueMessage ''d2''] \<and>
   markPublishedFails markFailsEnv (dueMessage ''d1'') \<and>
   fst (sendDelayedMessages topicServer markFailsEnv) = Some (errOther ''mark published'') \<and>
   TopicPublish ''mytopic'' (dueMessage ''d2'') \<notin> set (snd (sendDelayedMessages topicServer markFailsEnv)) \<and>
   CallFirebase (dueMessage ''d2'') \<notin> set (snd (sendDelayedMessages topicServer markFailsEnv)) \<and>
   CacheMarkPublished (dueMessage ''d2'') \<notin> set (snd (sendDelayedMessages topicServer markFailsEnv))"
  by code_simp

text \<open>
  Claim C3, amended. For each due message the loop publishes to the topic when it is in the
  registry, calls the push hook when it is configured, then marks the message published,
  in this order. An error of the fan-out or of the push hook is logged right after the
  failing call, the message is marked published all the same, and the batch goes on: when
  no \<^verbatim>\<open>MarkPublished\<close> fails, every due message is processed, log lines included. An error of
  \<^verbatim>\<open>MarkPublished\<close> ends the run: the messages up to and including that one have been
  processed, the later ones have not, and the loop of \<^verbatim>\<open>runAtSender\<close> logs the error.
\<close>

theorem delayed_batch:
  "filter (\<lambda>x. \<not> isLogError x) (deliverDelayed s e m) =
     (if fmlookup (topics s) (Topic m) \<noteq> None then [TopicPublish (Topic m) m] else []) @
     (if firebase s then [CallFirebase m] else []) @ [CacheMarkPublished m] \<and>
   deliverDelayed s e m =
     (if fmlookup (topics s) (Topic m) \<noteq> None then
        TopicPublish (Topic m) m #
        (if publishFails e m then [LogError ''unable to publish message''] else [])
      else []) @
     (if firebase s then
        CallFirebase m #
        (if firebaseFails e m then [LogError ''unable to publish to Firebase''] else [])
      else []) @
     [CacheMarkPublished m] \<and>
   (fmlookup (topics s) (Topic m) \<noteq> None \<and> publishFails e m \<longrightarrow>
      LogError ''unable to publish message'' \<in> set (deliverDelayed s e m)) \<and>
   (firebase s \<and> firebaseFails e m \<longrightarrow>
      LogError ''unable to publish to Firebase'' \<in> set (deliverDelayed s e m)) \<and>
   (messagesDue e = Inr ms \<and> (\<forall>m \<in> set ms. \<not> markPublishedFails e m) \<longrightarrow>
      sendDelayedMessages s e = (None, concat (map (deliverDelayed s e) ms)) \<and>
      runAtSender s e = concat (map (deliverDelayed s e) ms) \<and>
      (m \<in> set ms \<longrightarrow> set (deliverDelayed s e m) \<subseteq> set (snd (sendDelayedMessages s e)))) \<and>
   (messagesDue e = Inr ms \<longrightarrow>
      snd (sendDelayedMessages s e) =
        concat (map (deliverDelayed s e)
          (takeWhile (\<lambda>m. \<not> markPublishedFails e m) ms @
           take 1 (dropWhile (\<lambda>m. \<not> markPublishedFails e m) ms))) \<and>
      (fst (sendDelayedMessages s e) \<noteq> None) = (\<exists>m \<in> set ms. markPublishedFails e m)) \<and>
   (fst (sendDelayedMessages s e) \<noteq> None \<longrightarrow>
      runAtSender s e =
        snd (sendDelayedMessages s e) @ [LogError ''error sending scheduled messages''])"
proof -
  have a: "filter (\<lambda>x. \<not> isLogError x) (deliverDelayed s e m) =
     (if fmlookup (topics s) (Topic m) \<noteq> None then [TopicPublish (Topic m) m] else []) @
     (if firebase s then [CallFirebase m] else []) @ [CacheMarkPublished m]"
    by (rule deliverDelayed_calls)
  have x: "deliverDelayed s e m =
     (if fmlookup (topics s) (Topic m) \<noteq> None then
        TopicPublish (Topic m) m #
        (if publishFails e m then [LogError ''unable to publish message''] else [])
      else []) @
     (if firebase s then
        CallFirebase m #
        (if firebaseFails e m then [LogError ''unable to publish to Firebase''] else [])
      else []) @
     [CacheMarkPublished m]"
    by (rule deliverDelayed_exact)
  have l1: "fmlookup (topics s) (Topic m) \<noteq> None \<and> publishFails e m \<longrightarrow>
      LogError ''unable to publish message'' \<in> set (deliverDelayed s e m)"
    by (simp add: deliverDelayed_exact)
  have l2: "firebase s \<and> firebaseFails e m \<longrightarrow>
      LogError ''unable to publish to Firebase'' \<in> set (deliverDelayed s e m)"
    by (simp add: deliverDelayed_exact)
  have b: "messagesDue e = Inr ms \<and> (\<forall>m \<in> set ms. \<not> markPublishedFails e m) \<longrightarrow>
      sendDelayedMessages s e = (None, concat (map (deliverDelayed s e) ms)) \<and>
      runAtSender s e = concat (map (deliverDelayed s e) ms) \<and>
      (m \<in> set ms \<longrightarrow> set (deliverDelayed s e m) \<subseteq> set (snd (sendDelayedMessages s e)))"
    using sendDelayedLoop_all[of ms e s] deliverDelayed_in_batch[of ms e m s]
    by (simp add: sendDelayedMessages_def runAtSender_def)
  have c: "messagesDue e = Inr ms \<longrightarrow>
      snd (sendDelayedMessages s e) =
        concat (map (deliverDelayed s e)
          (takeWhile (\<lambda>m. \<not> markPublishedFails e m) ms @
           take 1 (dropWhile (\<lambda>m. \<not> markPublishedFails e m) ms))) \<and>
      (fst (sendDelayedMessages s e) \<noteq> None) = (\<exists>m \<in> set ms. markPublishedFails e m)"
    by (simp add: sendDelayedMessages_def sendDelayedLoop_prefix[of s e ms])
  have d: "fst (sendDelayedMessages s e) \<noteq> None \<longrightarrow>
      runAtSender s e =
        snd (sendDelayedMessages s e) @ [LogError ''error sending scheduled messages'']"
    by (cases "sendDelayedMessages s e") (auto simp: runAtSender_def)
  show ?thesis using a x l1 l2 b c d by (intro conjI)
qed

theorem delayed_batch_witness:
  "messagesDue dueEnv = Inr [dueMessage ''d1'', dueMessage ''d2''] \<and>
   \<not> markPublishedFails dueEnv (dueMessage ''d1'') \<and>
   \<not> markPublishedFails dueEnv (dueMessage ''d2'') \<and>
   fmlookup (topics topicServer) (Topic (dueMessage ''d1'')) \<noteq> None \<and> firebase topicServer \<and>
   publishFails dueEnv (dueMessage ''d1'') \<and> firebaseFails dueEnv (dueMessage ''d1'') \<and>
   sendDelayedMessages topicServer dueEnv =
     (None, deliverDelayed topicServer dueEnv (dueMessage ''d1'') @
            deliverDelayed topicServer dueEnv (dueMessage ''d2'')) \<and>
   LogError ''unable to publish message'' \<in> set (snd (sendDelayedMessages topicServer dueEnv)) \<and>
   LogError ''unable to publish to Firebase'' \<in> set (snd (sendDelayedMessages topicServer dueEnv)) \<and>
   CacheMarkPublished (dueMessage ''d2'') \<in> set (snd (sendDelayedMessages topicServer dueEnv)) \<and>
   messagesDue markFailsEnv = Inr [dueMessage ''d1'', dueMessage ''d2''] \<and>
   fst (sendDelayedMessages topicServer markFailsEnv) \<noteq> None \<and>
   snd (sendDelayedMessages topicServer markFailsEnv) =
     deliverDelayed topicServer markFailsEnv (dueMessage ''d1'') \<and>
   runAtSender topicServer markFailsEnv =
     deliverDelayed topicServer markFailsEnv (dueMessage ''d1'') @
     [LogError ''error sending scheduled messages'']"
proof -
  let ?ms = "[dueMessage ''d1'', dueMessage ''d2'']"
  have h1: "messagesDue dueEnv = Inr ?ms" by code_simp
  have h2a: "\<not> markPublishedFails dueEnv (dueMessage ''d1'')"
    "\<not> markPublishedFails dueEnv (dueMessage ''d2'')" by code_simp+
  then have h2: "\<forall>m \<in> set ?ms. \<not> markPublishedFails dueEnv m" by simp
  have h3: "publishFails dueEnv (dueMessage ''d1'')" "firebaseFails dueEnv (dueMessage ''d1'')"
    by code_simp+
  have h4: "fmlookup (topics topicServer) (Topic (dueMessage ''d1'')) \<noteq> None" "firebase topicServer"
    by code_simp+
  have h5: "dueMessage ''d1'' \<in> set ?ms" by simp
  have g1: "messagesDue markFailsEnv = Inr ?ms" by code_simp
  have g2: "\<exists>m \<in> set ?ms. markPublishedFails markFailsEnv m" by code_simp
  have g3: "takeWhile (\<lambda>m. \<not> markPublishedFails markFailsEnv m) ?ms @
           take 1 (dropWhile (\<lambda>m. \<not> markPublishedFails markFailsEnv m) ?ms) = [dueMessage ''d1'']"
    by code_simp
  note D = delayed_batch[where s = topicServer and e = dueEnv and ms = ?ms and m = "dueMessage ''d1''"]
  note M = delayed_batch[where s = topicServer and e = markFailsEnv and ms = ?ms
      and m = "dueMessage ''d1''"]
  note Db = D[THEN conjunct2, THEN conjunct2, THEN conjunct2, THEN conjunct2, THEN conjunct1,
      THEN mp, OF conjI[OF h1 h2]]
  have r1: "sendDelayedMessages topicServer dueEnv =
     (None, deliverDelayed topicServer dueEnv (dueMessage ''d1'') @
            deliverDelayed topicServer dueEnv (dueMessage ''d2''))"
    using Db[THEN conjunct1] by simp
  have sub: "set (deliverDelayed topicServer dueEnv (dueMessage ''d1'')) \<subseteq>
      set (snd (sendDelayedMessages topicServer dueEnv))"
    using Db[THEN conjunct2, THEN conjunct2] h5 by (rule mp)
  have l1: "LogError ''unable to publish message'' \<in> set (snd (sendDelayedMessages topicServer dueEnv))"
    using D[THEN conjunct2, THEN conjunct2, THEN conjunct1, THEN mp, OF conjI[OF h4(1) h3(1)]] sub
    by (rule subsetD[rotated])
  have l2: "LogError ''unable to publish to Firebase'' \<in> set (snd (sendDelayedMessages topicServer dueEnv))"
    using D[THEN conjunct2, THEN conjunct2, THEN conjunct2, THEN conjunct1, THEN mp,
        OF conjI[OF h4(2) h3(2)]] sub
    by (rule subsetD[rotated])
  have r2: "CacheMarkPublished (dueMessage ''d2'') \<in> set (snd (sendDelayedMessages topicServer dueEnv))"
    unfolding r1 by (simp add: deliverDelayed_def)
  note Mc = M[THEN conjunct2, THEN conjunct2, THEN conjunct2, THEN conjunct2, THEN conjunct2,
      THEN conjunct1, THEN mp, OF g1]
  have r3: "fst (sendDelayedMessages topicServer markFailsEnv) \<noteq> None"
    using Mc[THEN conjunct2] g2 by blast
  have r4: "snd (sendDelayedMessages topicServer markFailsEnv) =
     deliverDelayed topicServer markFailsEnv (dueMessage ''d1'')"
    using Mc[THEN conjunct1] unfolding g3 by simp
  have r5: "runAtSender topicServer markFailsEnv =
     deliverDelayed topicServer markFailsEnv (dueMessage ''d1'') @
     [LogError ''error sending scheduled messages'']"
    using M[THEN conjunct2, THEN conjunct2, THEN conjunct2, THEN conjunct2, THEN conjunct2,
        THEN conjunct2] r3 r4 by simp
  show ?thesis using h1 h2a h4 h3 r1 l1 l2 r2 g1 r3 r4 r5 by (intro conjI)
qed

section \<open>Properties of a streaming connection\<close>

lemma passesQueryFilter_no_filter: "passesQueryFilter m [] [] [] []"
  by (simp add: passesQueryFilter_def Let_def)

lemma raced_reachable: "reachable [] [] [] [] [''mytopic''] [cachedMessage] racedConnection"
proof -
  let ?step = "connStep [] [] [] []"
  let ?c0 = "connStart [''mytopic''] [cachedMessage]"
  let ?c1 = "?c0\<lparr>toRegister := [], registered := registered ?c0 @ [''mytopic'']\<rparr>"
  let ?c2 = "writeIf [] [] [] [] Publisher liveMessage ?c1"
  let ?c3 = "?c2\<lparr>phaseOf := Opening\<rparr>"
  let ?c4 = "writeIf [] [] [] [] HandlerOpen openMessage (?c3\<lparr>phaseOf := Replaying\<rparr>)"
  let ?c5 = "writeIf [] [] [] [] HandlerReplay cachedMessage (?c4\<lparr>toReplay := []\<rparr>)"
  have s1: "?step ?c0 ?c1"
    by (rule connStep.register) (simp_all add: connStart_def)
  have s2: "?step ?c1 ?c2"
    by (rule connStep.publish) (simp add: connStart_def liveMessage_def publishedMessage_def)
  have s3: "?step ?c2 ?c3"
    by (rule connStep.registered_all)
       (simp_all add: connStart_def writeIf_def passesQueryFilter_no_filter)
  have s4: "?step ?c3 ?c4"
    by (rule connStep.send_open)
       (simp_all add: connStart_def writeIf_def passesQueryFilter_no_filter openMessage_def
         newOpenMessage_def newMessage_def)
  have s5: "?step ?c4 ?c5"
    by (rule connStep.replay)
       (simp_all add: connStart_def writeIf_def passesQueryFilter_no_filter)
  have e: "?c5 = racedConnection"
    by (simp add: connStart_def writeIf_def passesQueryFilter_no_filter racedConnection_def)
  have R: "(?step)\<^sup>*\<^sup>* ?c0 ?c5"
    using s1 s2 s3 s4 s5 by (meson rtranclp.rtrancl_into_rtrancl rtranclp.rtrancl_refl)
  show ?thesis unfolding reachable_def e[symmetric] by (rule R)
qed

lemma openBeforeReplay_snoc:
  "openBeforeReplay (ws @ [w]) =
     (openBeforeReplay ws \<and> (w = HandlerReplay \<longrightarrow> HandlerOpen \<in> set ws))"
  by (induction ws) auto

lemma open_passes: "Event m = openEvent \<Longrightarrow> passesQueryFilter m mf tf pf tgf"
  by (simp add: passesQueryFilter_def openEvent_def messageEvent_def)

lemma connInv_start: "connInv mf tf pf tgf cached (connStart ts cached)"
  by (simp add: connInv_def connStart_def)

lemma connInv_step:
  assumes "connStep mf tf pf tgf c c'" and "connInv mf tf pf tgf cached c"
  shows "connInv mf tf pf tgf cached c'"
  using assms
proof (induction rule: connStep.induct)
  case (register c t ts)
  then show ?case by (auto simp: connInv_def)
next
  case (registered_all c)
  then show ?case by (auto simp: connInv_def)
next
  case (send_open c m)
  then show ?case
    by (auto simp: connInv_def writeIf_def open_passes openBeforeReplay_snoc)
next
  case (replay c m ms)
  then show ?case
    by (auto simp: connInv_def writeIf_def openBeforeReplay_snoc)
next
  case (replay_done c)
  then show ?case by (auto simp: connInv_def)
next
  case (keepalive c m)
  then show ?case
    by (auto simp: connInv_def writeIf_def openBeforeReplay_snoc)
next
  case (publish m c)
  then show ?case
    by (auto simp: connInv_def writeIf_def openBeforeReplay_snoc)
qed

lemma connInv_reachable:
  assumes "reachable mf tf pf tgf ts cached c"
  shows "connInv mf tf pf tgf cached c"
  using assms unfolding reachable_def
  by (induction rule: rtranclp_induct) (auto intro: connInv_start connInv_step)

text \<open>
  Claim C4, as stated, fails: the callback is registered on the topics before the open
  message is sent, so a message published right after the registration is written to the
  connection before the open message and before the replayed cached message.
\<close>

theorem replay_then_live_counterexample:
  "reachable [] [] [] [] [''mytopic''] [cachedMessage] racedConnection \<and>
   written racedConnection =
     [(Publisher, liveMessage), (HandlerOpen, openMessage), (HandlerReplay, cachedMessage)] \<and>
   \<not> replayBeforeLive (map fst (written racedConnection))"
proof -
  have a: "written racedConnection =
     [(Publisher, liveMessage), (HandlerOpen, openMessage), (HandlerReplay, cachedMessage)]"
    by (simp add: racedConnection_def)
  have b: "\<not> replayBeforeLive (map fst (written racedConnection))"
    by (simp add: a)
  show ?thesis using raced_reachable a b by (intro conjI)
qed

text \<open>
  Claim C4, amended. In every state a streaming connection can reach, no replayed cached
  message has been written before the open message, and the replayed messages are the
  cached messages that pass the filters, in the order of the cache. A live message is
  written by its publisher, on a topic on which the callback is registered; since the
  registration comes first, nothing orders it after the open message or after the replay.
\<close>

theorem open_then_replay:
  assumes "reachable mf tf pf tgf ts cached c"
  shows "openBeforeReplay (map fst (written c)) \<and>
         map snd (filter (\<lambda>x. fst x = HandlerReplay) (written c)) @
           filter (\<lambda>m. passesQueryFilter m mf tf pf tgf) (toReplay c) =
           filter (\<lambda>m. passesQueryFilter m mf tf pf tgf) cached \<and>
         (\<forall>x \<in> set (written c). fst x = Publisher \<longrightarrow> Topic (snd x) \<in> set (registered c))"
  using connInv_reachable[OF assms] by (simp add: connInv_def)

theorem open_then_replay_witness:
  "reachable [] [] [] [] [''mytopic''] [cachedMessage] racedConnection \<and>
   openBeforeReplay (map fst (written racedConnection)) \<and>
   map snd (filter (\<lambda>x. fst x = HandlerReplay) (written racedConnection)) = [cachedMessage]"
proof -
  have p: "filter (\<lambda>m. passesQueryFilter m [] [] [] []) [cachedMessage] = [cachedMessage]"
    by (simp add: passesQueryFilter_no_filter)
  have t: "toReplay racedConnection = []" by (simp add: racedConnection_def)
  from open_then_replay[OF raced_reachable] p t
  show ?thesis using raced_reachable by simp
qed

end
